theory Spec2Isabelle
  imports Main "HOL-Library.Word" "HOL-Library.Sublist"
begin

section \<open>Shared vocabulary\<close>

text \<open>
  A shallow embedding of the storage backends of \<^verbatim>\<open>lemmego/fsys\<close>: the in-memory backend
  (\<^verbatim>\<open>memory_storage.go\<close>) and the Google Cloud Storage backend
  (\<^verbatim>\<open>google_cloud_storage.go\<close>). Go strings are byte strings, modelled as \<^typ>\<open>string\<close>;
  a byte is an 8-bit word. A byte slice that a method keeps is a view into shared memory
  (next subsection); bytes that a method only consumes during the call are a list. A Go
  result pair \<^verbatim>\<open>(T, error)\<close> is a sum whose left injection
  carries the error; a plain \<^verbatim>\<open>error\<close> result is an \<^typ>\<open>'a option\<close> with \<^term>\<open>None\<close> for
  \<^verbatim>\<open>nil\<close>. Every method takes the receiver's state and returns its result together with the
  state afterwards. The mutex of the memory backend is not modelled: all statements are
  about sequential executions.
\<close>

type_synonym byte = "8 word"

datatype error =
    ErrNotExist
  | ErrObjectNotExist
  | ErrorString string
  | ErrExternal nat
  | Panic string

text \<open>
  \<^term>\<open>ErrNotExist\<close> is \<^verbatim>\<open>os.ErrNotExist\<close>, \<^term>\<open>ErrObjectNotExist\<close> is
  \<^verbatim>\<open>storage.ErrObjectNotExist\<close>, \<^term>\<open>ErrorString\<close> is a value of \<^verbatim>\<open>errors.New\<close>, and
  \<^term>\<open>ErrExternal\<close> stands for any other error value that a stream, the operating system
  or the object-store client hands back. \<^term>\<open>Panic\<close> is not an error value of the program:
  it marks a call that does not return because the run-time system panics, with the
  message of the panic.
\<close>

definition DRIVER_MEMORY :: string where
  "DRIVER_MEMORY = ''memory''"

definition DRIVER_GCS :: string where
  "DRIVER_GCS = ''gcs''"

subsection \<open>Byte slices and the memory behind them\<close>

text \<open>
  A \<^verbatim>\<open>[]byte\<close> is not a value but a view of an array: the array it points into, where the
  view starts, and its length. Two slices over the same array see each other's changes.
  The memory is the list of the arrays allocated so far, an array's address being its
  index; an allocation appends a new array, and a store changes one byte of an array in
  place. The bytes of a slice are read from the memory as it is at the time of reading. A
  slice is valid when it has length zero (the nil slice is one such) or lies within an
  allocated array; Go hands out no other slices.
\<close>

type_synonym addr = nat

type_synonym heap = "byte list list"

record slice =
  sl_array :: addr
  sl_start :: nat
  sl_len :: nat

definition array_at :: "heap \<Rightarrow> addr \<Rightarrow> byte list" where
  "array_at h a = (if a < length h then h ! a else [])"

definition slice_bytes :: "heap \<Rightarrow> slice \<Rightarrow> byte list" where
  "slice_bytes h s = take (sl_len s) (drop (sl_start s) (array_at h (sl_array s)))"

definition valid_slice :: "heap \<Rightarrow> slice \<Rightarrow> bool" where
  "valid_slice h s =
     (sl_len s = 0 \<or>
      (sl_array s < length h \<and> sl_start s + sl_len s \<le> length (h ! sl_array s)))"

definition heap_alloc :: "heap \<Rightarrow> byte list \<Rightarrow> slice \<times> heap" where
  "heap_alloc h d = (\<lparr>sl_array = length h, sl_start = 0, sl_len = length d\<rparr>, h @ [d])"

text \<open>A store outside an allocated array is an index panic; it is \<^term>\<open>None\<close> here.\<close>

definition heap_store :: "heap \<Rightarrow> addr \<Rightarrow> nat \<Rightarrow> byte \<Rightarrow> heap option" where
  "heap_store h a i v =
     (if a < length h \<and> i < length (h ! a) then Some (h[a := (h ! a)[i := v]]) else None)"

subsection \<open>Standard-library values used by the backends\<close>

text \<open>
  \<^verbatim>\<open>bytes.Buffer\<close> holds a slice and a read offset. \<^verbatim>\<open>NewBuffer\<close> wraps the slice it is
  given, without copying it, with offset zero; \<^verbatim>\<open>Bytes\<close> is the unread part \<^verbatim>\<open>buf[off:]\<close>, a
  slice over the same array.
\<close>

record Buffer =
  buf :: slice
  off :: nat

definition bytes_NewBuffer :: "slice \<Rightarrow> Buffer" where
  "bytes_NewBuffer p = \<lparr>buf = p, off = 0\<rparr>"

definition Buffer_Bytes :: "Buffer \<Rightarrow> slice" where
  "Buffer_Bytes b =
     \<lparr>sl_array = sl_array (buf b), sl_start = sl_start (buf b) + off b,
      sl_len = sl_len (buf b) - off b\<rparr>"

text \<open>
  \<^verbatim>\<open>bytes.Reader\<close> is a slice with a position, again without a copy; \<^verbatim>\<open>io.ReadAll\<close> on it
  yields the bytes of the slice, as the memory holds them when it is read, from the
  position on. \<^verbatim>\<open>io.NopCloser\<close> only adds a \<^verbatim>\<open>Close\<close> that does nothing.
\<close>

datatype bytes_Reader = bytes_Reader (rd_slice: slice) (rd_pos: nat)

definition bytes_NewReader :: "slice \<Rightarrow> bytes_Reader" where
  "bytes_NewReader p = bytes_Reader p 0"

definition io_NopCloser :: "bytes_Reader \<Rightarrow> bytes_Reader" where
  "io_NopCloser r = r"

definition io_ReadAll_in :: "heap \<Rightarrow> bytes_Reader \<Rightarrow> byte list" where
  "io_ReadAll_in h r = drop (rd_pos r) (slice_bytes h (rd_slice r))"

text \<open>
  The reader of a remote object (\<^verbatim>\<open>storage.Reader\<close>) delivers the bytes the object had when
  the reader was obtained; it is those bytes with a position, and \<^verbatim>\<open>io.ReadAll\<close> on it
  yields them from the position on.
\<close>

datatype Reader = Reader (reader_s: "byte list") (reader_i: nat)

definition io_ReadAll :: "Reader \<Rightarrow> byte list" where
  "io_ReadAll r = drop (reader_i r) (reader_s r)"

text \<open>
  A \<^verbatim>\<open>multipart.File\<close> is consumed only through \<^verbatim>\<open>Read\<close>: the model lists the chunks its
  successive reads deliver and how the stream ends (\<^term>\<open>None\<close> for \<^verbatim>\<open>io.EOF\<close>, otherwise the
  read error). Of the \<^verbatim>\<open>multipart.FileHeader\<close> only \<^verbatim>\<open>Filename\<close> is used; the header pointer
  is taken to be non-nil.
\<close>

record multipart_File =
  chunks :: "byte list list"
  final :: "error option"

record multipart_FileHeader =
  Filename :: string

text \<open>
  \<^verbatim>\<open>io.Copy(&buf, file)\<close> into the zero-value buffer of \<^verbatim>\<open>Upload\<close>: the buffer allocates
  memory of its own, which nothing else refers to, and ends up holding everything read
  before the stream ended; the error is the read error, if any.
\<close>

definition io_Copy_Buffer :: "heap \<Rightarrow> multipart_File \<Rightarrow> (Buffer \<times> error option) \<times> heap" where
  "io_Copy_Buffer h src =
     (case heap_alloc h (concat (chunks src)) of
        (p, h') \<Rightarrow> ((\<lparr>buf = p, off = 0\<rparr>, final src), h'))"

text \<open>\<^verbatim>\<open>strings.HasSuffix\<close>, as the standard library defines it.\<close>

definition strings_HasSuffix :: "string \<Rightarrow> string \<Rightarrow> bool" where
  "strings_HasSuffix str suf =
     (length suf \<le> length str \<and> drop (length str - length suf) str = suf)"

text \<open>
  \<^verbatim>\<open>filepath.Join\<close> and \<^verbatim>\<open>filepath.Clean\<close> belong to the Go standard library, not to the
  repository. They are modelled after their documentation for a platform whose separator is
  \<^verbatim>\<open>/\<close>: \<^verbatim>\<open>Clean\<close> drops empty and \<^verbatim>\<open>.\<close> elements, lets \<^verbatim>\<open>..\<close> cancel the element before it
  (dropping it at the root, keeping it at the front of a relative path), and turns an empty
  result into \<^verbatim>\<open>.\<close>; \<^verbatim>\<open>Join\<close> ignores leading empty elements, joins the rest with the separator
  and cleans the result, and is empty when every element is.
\<close>

fun path_elements :: "string \<Rightarrow> string list" where
  "path_elements [] = [[]]"
| "path_elements (c # cs) =
     (if c = CHR ''/'' then [] # path_elements cs
      else (case path_elements cs of
              [] \<Rightarrow> [[c]]
            | e # es \<Rightarrow> (c # e) # es))"

definition clean_element :: "bool \<Rightarrow> string list \<Rightarrow> string \<Rightarrow> string list" where
  "clean_element rooted out e =
     (if e = [] \<or> e = ''.'' then out
      else if e = ''..'' then
        (if out \<noteq> [] \<and> last out \<noteq> ''..'' then butlast out
         else if rooted then out
         else out @ [e])
      else out @ [e])"

fun join_elements :: "string list \<Rightarrow> string" where
  "join_elements [] = []"
| "join_elements [e] = e"
| "join_elements (e # es) = e @ ''/'' @ join_elements es"

definition filepath_Clean :: "string \<Rightarrow> string" where
  "filepath_Clean path =
     (if path = [] then ''.''
      else
        (let rooted = (hd path = CHR ''/'');
             out = join_elements (foldl (clean_element rooted) [] (path_elements path))
         in if rooted then ''/'' @ out
            else if out = [] then ''.''
            else out))"

definition filepath_Join :: "string \<Rightarrow> string \<Rightarrow> string" where
  "filepath_Join dir name =
     (if dir \<noteq> [] then filepath_Clean (dir @ ''/'' @ name)
      else if name \<noteq> [] then filepath_Clean name
      else [])"

text \<open>
  An \<^verbatim>\<open>*os.File\<close> is a nilable pointer: \<^term>\<open>None\<close> is \<^verbatim>\<open>nil\<close>, and a non-nil handle is
  the index of an open local file (see \<open>local_file\<close> below).
\<close>

type_synonym os_File = nat

section \<open>The memory backend\<close>

text \<open>
  \<^verbatim>\<open>File\<close> pairs a name with a buffer. The map of the backend holds pointers to such entries;
  no method changes an entry after it has been stored (entries are only put into the map,
  moved to another key, or dropped), so an entry is represented by its value. The bytes of
  an entry, however, stay in the array of the slice it was made from: \<^verbatim>\<open>Write\<close> keeps the
  caller's slice, and \<^verbatim>\<open>Copy\<close> keeps the source's.

  A Go map is nil or allocated. \<^verbatim>\<open>NewMemoryStorage\<close> allocates it; the zero value of the
  struct has the nil map. A lookup in the nil map finds nothing, a delete from it does
  nothing, and an assignment to it panics.
\<close>

record File =
  Name :: string
  Content :: Buffer

record MemoryStorage =
  files :: "(string \<rightharpoonup> File) option"

definition NewMemoryStorage :: MemoryStorage where
  "NewMemoryStorage = \<lparr>files = Some Map.empty\<rparr>"

definition zero_MemoryStorage :: MemoryStorage where
  "zero_MemoryStorage = \<lparr>files = None\<rparr>"

definition entry :: "MemoryStorage \<Rightarrow> string \<Rightarrow> File option" where
  "entry fs path = (case files fs of None \<Rightarrow> None | Some m \<Rightarrow> m path)"

definition assign_entry :: "MemoryStorage \<Rightarrow> string \<Rightarrow> File \<Rightarrow> MemoryStorage option" where
  "assign_entry fs path file =
     (case files fs of
        None \<Rightarrow> None
      | Some m \<Rightarrow> Some (fs\<lparr>files := Some (m(path \<mapsto> file))\<rparr>))"

definition delete_entry :: "MemoryStorage \<Rightarrow> string \<Rightarrow> MemoryStorage" where
  "delete_entry fs path =
     (case files fs of
        None \<Rightarrow> fs
      | Some m \<Rightarrow> fs\<lparr>files := Some (m(path := None))\<rparr>)"

definition nil_map_panic :: error where
  "nil_map_panic = Panic ''assignment to entry in nil map''"

definition MemoryStorage_Driver :: "MemoryStorage \<Rightarrow> string \<times> MemoryStorage" where
  "MemoryStorage_Driver fs = (DRIVER_MEMORY, fs)"

definition MemoryStorage_Read ::
    "MemoryStorage \<Rightarrow> string \<Rightarrow> (error + bytes_Reader) \<times> MemoryStorage" where
  "MemoryStorage_Read fs path =
     (case entry fs path of
        None \<Rightarrow> (Inl ErrNotExist, fs)
      | Some file \<Rightarrow> (Inr (io_NopCloser (bytes_NewReader (Buffer_Bytes (Content file)))), fs))"

definition MemoryStorage_Write ::
    "MemoryStorage \<Rightarrow> string \<Rightarrow> slice \<Rightarrow> error option \<times> MemoryStorage" where
  "MemoryStorage_Write fs path contents =
     (case assign_entry fs path \<lparr>Name = path, Content = bytes_NewBuffer contents\<rparr> of
        None \<Rightarrow> (Some nil_map_panic, fs)
      | Some fs' \<Rightarrow> (None, fs'))"

definition MemoryStorage_Delete ::
    "MemoryStorage \<Rightarrow> string \<Rightarrow> error option \<times> MemoryStorage" where
  "MemoryStorage_Delete fs path =
     (case entry fs path of
        None \<Rightarrow> (Some ErrNotExist, fs)
      | Some file \<Rightarrow> (None, delete_entry fs path))"

definition MemoryStorage_Exists ::
    "MemoryStorage \<Rightarrow> string \<Rightarrow> (error + bool) \<times> MemoryStorage" where
  "MemoryStorage_Exists fs path = (Inr (entry fs path \<noteq> None), fs)"

definition MemoryStorage_Rename ::
    "MemoryStorage \<Rightarrow> string \<Rightarrow> string \<Rightarrow> error option \<times> MemoryStorage" where
  "MemoryStorage_Rename fs oldPath newPath =
     (case entry fs oldPath of
        None \<Rightarrow> (Some ErrNotExist, fs)
      | Some file \<Rightarrow>
          (case assign_entry fs newPath file of
             None \<Rightarrow> (Some nil_map_panic, fs)
           | Some fs' \<Rightarrow> (None, delete_entry fs' oldPath)))"

definition MemoryStorage_Copy ::
    "MemoryStorage \<Rightarrow> string \<Rightarrow> string \<Rightarrow> error option \<times> MemoryStorage" where
  "MemoryStorage_Copy fs sourcePath destinationPath =
     (case entry fs sourcePath of
        None \<Rightarrow> (Some ErrNotExist, fs)
      | Some sourceFile \<Rightarrow>
          (case assign_entry fs destinationPath
                  \<lparr>Name = destinationPath,
                   Content = bytes_NewBuffer (Buffer_Bytes (Content sourceFile))\<rparr> of
             None \<Rightarrow> (Some nil_map_panic, fs)
           | Some fs' \<Rightarrow> (None, fs')))"

definition directory_error :: error where
  "directory_error = ErrorString (''directory path must end with '' @ [CHR 0x27] @ ''/'' @ [CHR 0x27])"

definition MemoryStorage_CreateDirectory ::
    "MemoryStorage \<Rightarrow> string \<Rightarrow> error option \<times> MemoryStorage" where
  "MemoryStorage_CreateDirectory fs path =
     (if \<not> strings_HasSuffix path ''/'' then (Some directory_error, fs)
      else (None, fs))"

definition MemoryStorage_GetUrl ::
    "MemoryStorage \<Rightarrow> string \<Rightarrow> (error + string) \<times> MemoryStorage" where
  "MemoryStorage_GetUrl fs path =
     (case MemoryStorage_Exists fs path of
        (Inr True, fs') \<Rightarrow> (Inr (''mem://'' @ path), fs')
      | (_, fs') \<Rightarrow> (Inl ErrNotExist, fs'))"

definition open_error :: error where
  "open_error = ErrorString ''open is not supported for in-memory storage''"

definition MemoryStorage_Open ::
    "MemoryStorage \<Rightarrow> string \<Rightarrow> (error + os_File option) \<times> MemoryStorage" where
  "MemoryStorage_Open fs path = (Inl open_error, fs)"

text \<open>
  \<^verbatim>\<open>Upload\<close> fills a buffer of its own from the stream, so it takes the memory and returns
  it with the buffer's array added.
\<close>

definition MemoryStorage_Upload ::
    "MemoryStorage \<Rightarrow> multipart_File \<Rightarrow> multipart_FileHeader \<Rightarrow> string \<Rightarrow> heap
       \<Rightarrow> (error + os_File option) \<times> MemoryStorage \<times> heap" where
  "MemoryStorage_Upload fs file header dir h =
     (case io_Copy_Buffer h file of
        ((b, Some err), h') \<Rightarrow> (Inl err, fs, h')
      | ((b, None), h') \<Rightarrow>
          (let filePath = filepath_Join dir (Filename header)
           in (case assign_entry fs filePath \<lparr>Name = filePath, Content = b\<rparr> of
                 None \<Rightarrow> (Inl nil_map_panic, fs, h')
               | Some fs' \<Rightarrow> (Inr None, fs', h'))))"

section \<open>The Google Cloud Storage backend\<close>

subsection \<open>The object-store client and the local temporary files\<close>

text \<open>
  The client library \<^verbatim>\<open>cloud.google.com/go/storage\<close> and the operating system are outside
  the repository. They are represented by a world that the backend acts on: the objects of
  the remote store, keyed by bucket and object name; the local temporary files; a trace of
  the calls the backend has made; and a plan of injected failures. Every call into the
  client or the operating system is appended to the trace and takes the next entry of the
  plan: \<^term>\<open>Some e\<close> makes the call fail with \<open>e\<close> and change nothing, \<^term>\<open>None\<close> (or an
  exhausted plan) lets it run. A call that runs fails on its own account only where the
  store has no such object.
\<close>

datatype client_call =
    Call_Writer_Write string string "byte list"
  | Call_Writer_Close string string
  | Call_Object_Delete string string
  | Call_Object_Attrs string string
  | Call_Copier_Run string string string
  | Call_Object_NewReader string string
  | Call_Reader_Close string string
  | Call_CreateTemp
  | Call_File_ReadFrom os_File
  | Call_File_Seek os_File
  | Call_File_Close os_File

record local_file =
  file_data :: "byte list"
  file_offset :: nat
  file_closed :: bool

record World =
  objects :: "string \<times> string \<rightharpoonup> byte list"
  temps :: "local_file list"
  faults :: "error option list"
  trace :: "client_call list"

definition external :: "client_call \<Rightarrow> World \<Rightarrow> error option \<times> World" where
  "external c w =
     (case faults w of
        [] \<Rightarrow> (None, w\<lparr>trace := trace w @ [c]\<rparr>)
      | f # fs \<Rightarrow> (f, w\<lparr>faults := fs, trace := trace w @ [c]\<rparr>))"

text \<open>
  An object writer buffers what is written to it and creates the object when it is closed
  without an error; a writer that has failed stays failed. Creating a writer makes no
  call.
\<close>

record Writer =
  wr_bucket :: string
  wr_object :: string
  wr_buf :: "byte list"
  wr_err :: "error option"

definition Object_NewWriter :: "string \<Rightarrow> string \<Rightarrow> Writer" where
  "Object_NewWriter bucket name =
     \<lparr>wr_bucket = bucket, wr_object = name, wr_buf = [], wr_err = None\<rparr>"

definition Writer_Write :: "Writer \<Rightarrow> byte list \<Rightarrow> World \<Rightarrow> error option \<times> Writer \<times> World" where
  "Writer_Write wr p w =
     (case external (Call_Writer_Write (wr_bucket wr) (wr_object wr) p) w of
        (Some e, w') \<Rightarrow> (Some e, wr\<lparr>wr_err := Some e\<rparr>, w')
      | (None, w') \<Rightarrow>
          (case wr_err wr of
             Some e \<Rightarrow> (Some e, wr, w')
           | None \<Rightarrow> (None, wr\<lparr>wr_buf := wr_buf wr @ p\<rparr>, w')))"

definition Writer_Close :: "Writer \<Rightarrow> World \<Rightarrow> error option \<times> World" where
  "Writer_Close wr w =
     (case external (Call_Writer_Close (wr_bucket wr) (wr_object wr)) w of
        (Some e, w') \<Rightarrow> (Some e, w')
      | (None, w') \<Rightarrow>
          (case wr_err wr of
             Some e \<Rightarrow> (Some e, w')
           | None \<Rightarrow>
               (None, w'\<lparr>objects := (objects w')((wr_bucket wr, wr_object wr) \<mapsto> wr_buf wr)\<rparr>)))"

definition Object_Delete :: "string \<Rightarrow> string \<Rightarrow> World \<Rightarrow> error option \<times> World" where
  "Object_Delete bucket name w =
     (case external (Call_Object_Delete bucket name) w of
        (Some e, w') \<Rightarrow> (Some e, w')
      | (None, w') \<Rightarrow>
          (case objects w' (bucket, name) of
             None \<Rightarrow> (Some ErrObjectNotExist, w')
           | Some d \<Rightarrow> (None, w'\<lparr>objects := (objects w')((bucket, name) := None)\<rparr>)))"

definition Object_Attrs :: "string \<Rightarrow> string \<Rightarrow> World \<Rightarrow> error option \<times> World" where
  "Object_Attrs bucket name w =
     (case external (Call_Object_Attrs bucket name) w of
        (Some e, w') \<Rightarrow> (Some e, w')
      | (None, w') \<Rightarrow>
          (case objects w' (bucket, name) of
             None \<Rightarrow> (Some ErrObjectNotExist, w')
           | Some d \<Rightarrow> (None, w')))"

definition Copier_Run :: "string \<Rightarrow> string \<Rightarrow> string \<Rightarrow> World \<Rightarrow> error option \<times> World" where
  "Copier_Run bucket src dst w =
     (case external (Call_Copier_Run bucket src dst) w of
        (Some e, w') \<Rightarrow> (Some e, w')
      | (None, w') \<Rightarrow>
          (case objects w' (bucket, src) of
             None \<Rightarrow> (Some ErrObjectNotExist, w')
           | Some d \<Rightarrow> (None, w'\<lparr>objects := (objects w')((bucket, dst) \<mapsto> d)\<rparr>)))"

definition Object_NewReader :: "string \<Rightarrow> string \<Rightarrow> World \<Rightarrow> (error + Reader) \<times> World" where
  "Object_NewReader bucket name w =
     (case external (Call_Object_NewReader bucket name) w of
        (Some e, w') \<Rightarrow> (Inl e, w')
      | (None, w') \<Rightarrow>
          (case objects w' (bucket, name) of
             None \<Rightarrow> (Inl ErrObjectNotExist, w')
           | Some d \<Rightarrow> (Inr (Reader d 0), w')))"

definition Reader_Close :: "string \<Rightarrow> string \<Rightarrow> World \<Rightarrow> error option \<times> World" where
  "Reader_Close bucket name w = external (Call_Reader_Close bucket name) w"

text \<open>
  \<^verbatim>\<open>os.CreateTemp\<close> opens a new empty file. \<^verbatim>\<open>io.Copy(tempFile, rc)\<close> writes what the reader
  still holds at the file pointer, which is at the end of a temporary file whenever the
  backend writes to it. \<^verbatim>\<open>Seek(0, 0)\<close> moves the file pointer to the start.
\<close>

definition os_CreateTemp :: "World \<Rightarrow> (error + os_File) \<times> World" where
  "os_CreateTemp w =
     (case external Call_CreateTemp w of
        (Some e, w') \<Rightarrow> (Inl e, w')
      | (None, w') \<Rightarrow>
          (Inr (length (temps w')),
           w'\<lparr>temps := temps w' @ [\<lparr>file_data = [], file_offset = 0, file_closed = False\<rparr>]\<rparr>))"

definition update_file :: "os_File \<Rightarrow> (local_file \<Rightarrow> local_file) \<Rightarrow> World \<Rightarrow> World" where
  "update_file f g w = w\<lparr>temps := (temps w)[f := g (temps w ! f)]\<rparr>"

definition io_Copy_File :: "os_File \<Rightarrow> Reader \<Rightarrow> World \<Rightarrow> error option \<times> World" where
  "io_Copy_File f rc w =
     (case external (Call_File_ReadFrom f) w of
        (Some e, w') \<Rightarrow> (Some e, w')
      | (None, w') \<Rightarrow>
          (None, update_file f
             (\<lambda>lf. lf\<lparr>file_data := file_data lf @ io_ReadAll rc,
                      file_offset := file_offset lf + length (io_ReadAll rc)\<rparr>) w'))"

definition File_Seek_start :: "os_File \<Rightarrow> World \<Rightarrow> error option \<times> World" where
  "File_Seek_start f w =
     (case external (Call_File_Seek f) w of
        (Some e, w') \<Rightarrow> (Some e, w')
      | (None, w') \<Rightarrow> (None, update_file f (\<lambda>lf. lf\<lparr>file_offset := 0\<rparr>) w'))"

definition File_Close :: "os_File \<Rightarrow> World \<Rightarrow> error option \<times> World" where
  "File_Close f w =
     (case external (Call_File_Close f) w of
        (Some e, w') \<Rightarrow> (Some e, w')
      | (None, w') \<Rightarrow> (None, update_file f (\<lambda>lf. lf\<lparr>file_closed := True\<rparr>) w'))"

text \<open>
  \<^verbatim>\<open>io.Copy(wc, file)\<close>: each non-empty chunk read from the stream is written to the writer;
  a failed write ends the copy with its error, and a stream that ends in a read error ends
  the copy with that error.
\<close>

fun io_Copy_Writer ::
    "Writer \<Rightarrow> byte list list \<Rightarrow> error option \<Rightarrow> World \<Rightarrow> error option \<times> Writer \<times> World" where
  "io_Copy_Writer wr [] fin w = (fin, wr, w)"
| "io_Copy_Writer wr (c # cs) fin w =
     (if c = [] then io_Copy_Writer wr cs fin w
      else (case Writer_Write wr c w of
              (Some e, wr', w') \<Rightarrow> (Some e, wr', w')
            | (None, wr', w') \<Rightarrow> io_Copy_Writer wr' cs fin w'))"

subsection \<open>The methods of the backend\<close>

record GCSStorage =
  BucketName :: string

definition GCSStorage_Driver :: "GCSStorage \<Rightarrow> World \<Rightarrow> string \<times> World" where
  "GCSStorage_Driver gcs w = (DRIVER_GCS, w)"

definition GCSStorage_Read :: "GCSStorage \<Rightarrow> string \<Rightarrow> World \<Rightarrow> (error + Reader) \<times> World" where
  "GCSStorage_Read gcs path w =
     (case Object_NewReader (BucketName gcs) path w of
        (Inl err, w') \<Rightarrow> (Inl err, w')
      | (Inr reader, w') \<Rightarrow> (Inr reader, w'))"

text \<open>The deferred \<^verbatim>\<open>writer.Close()\<close> runs on both return paths; its result is dropped.\<close>

definition GCSStorage_Write ::
    "GCSStorage \<Rightarrow> string \<Rightarrow> byte list \<Rightarrow> World \<Rightarrow> error option \<times> World" where
  "GCSStorage_Write gcs path contents w =
     (let writer = Object_NewWriter (BucketName gcs) path
      in (case Writer_Write writer contents w of
            (Some err, writer', w') \<Rightarrow> (Some err, snd (Writer_Close writer' w'))
          | (None, writer', w') \<Rightarrow> (None, snd (Writer_Close writer' w'))))"

definition GCSStorage_Delete :: "GCSStorage \<Rightarrow> string \<Rightarrow> World \<Rightarrow> error option \<times> World" where
  "GCSStorage_Delete gcs path w = Object_Delete (BucketName gcs) path w"

definition GCSStorage_Exists :: "GCSStorage \<Rightarrow> string \<Rightarrow> World \<Rightarrow> (error + bool) \<times> World" where
  "GCSStorage_Exists gcs path w =
     (case Object_Attrs (BucketName gcs) path w of
        (Some err, w') \<Rightarrow>
          (if err = ErrObjectNotExist then (Inr False, w') else (Inl err, w'))
      | (None, w') \<Rightarrow> (Inr True, w'))"

definition GCSStorage_Copy ::
    "GCSStorage \<Rightarrow> string \<Rightarrow> string \<Rightarrow> World \<Rightarrow> error option \<times> World" where
  "GCSStorage_Copy gcs sourcePath destPath w =
     Copier_Run (BucketName gcs) sourcePath destPath w"

definition GCSStorage_Rename ::
    "GCSStorage \<Rightarrow> string \<Rightarrow> string \<Rightarrow> World \<Rightarrow> error option \<times> World" where
  "GCSStorage_Rename gcs oldPath newPath w =
     (case GCSStorage_Copy gcs oldPath newPath w of
        (Some err, w') \<Rightarrow> (Some err, w')
      | (None, w') \<Rightarrow> GCSStorage_Delete gcs oldPath w')"

definition GCSStorage_GetUrl :: "GCSStorage \<Rightarrow> string \<Rightarrow> World \<Rightarrow> (error + string) \<times> World" where
  "GCSStorage_GetUrl gcs path w =
     (Inr (''https://storage.googleapis.com/'' @ BucketName gcs @ ''/'' @ path), w)"

text \<open>
  In \<^verbatim>\<open>Open\<close> the deferred \<^verbatim>\<open>rc.Close()\<close> runs on every return after the reader was
  obtained, after the closing of the temporary file on the two failure paths that close it.
\<close>

definition GCSStorage_Open ::
    "GCSStorage \<Rightarrow> string \<Rightarrow> World \<Rightarrow> (error + os_File option) \<times> World" where
  "GCSStorage_Open gcs path w =
     (case Object_NewReader (BucketName gcs) path w of
        (Inl err, w1) \<Rightarrow> (Inl err, w1)
      | (Inr rc, w1) \<Rightarrow>
          (case os_CreateTemp w1 of
             (Inl err, w2) \<Rightarrow> (Inl err, snd (Reader_Close (BucketName gcs) path w2))
           | (Inr tempFile, w2) \<Rightarrow>
               (case io_Copy_File tempFile rc w2 of
                  (Some err, w3) \<Rightarrow>
                    (Inl err, snd (Reader_Close (BucketName gcs) path (snd (File_Close tempFile w3))))
                | (None, w3) \<Rightarrow>
                    (case File_Seek_start tempFile w3 of
                       (Some err, w4) \<Rightarrow>
                         (Inl err,
                          snd (Reader_Close (BucketName gcs) path (snd (File_Close tempFile w4))))
                     | (None, w4) \<Rightarrow>
                         (Inr (Some tempFile), snd (Reader_Close (BucketName gcs) path w4))))))"

definition GCSStorage_Upload ::
    "GCSStorage \<Rightarrow> multipart_File \<Rightarrow> multipart_FileHeader \<Rightarrow> string \<Rightarrow> World
       \<Rightarrow> (error + os_File option) \<times> World" where
  "GCSStorage_Upload gcs file header dir w =
     (let objectPath = dir @ ''/'' @ Filename header;
          wc = Object_NewWriter (BucketName gcs) objectPath
      in (case io_Copy_Writer wc (chunks file) (final file) w of
            (Some err, wc', w1) \<Rightarrow> (Inl err, w1)
          | (None, wc', w1) \<Rightarrow>
              (case Writer_Close wc' w1 of
                 (Some err, w2) \<Rightarrow> (Inl err, w2)
               | (None, w2) \<Rightarrow> GCSStorage_Open gcs objectPath w2)))"

section \<open>Call sequences and example values\<close>

text \<open>
  What can happen to a memory backend and the memory around it: a call of one of the ten
  methods, or the caller allocating an array or storing a byte into one. Each step says
  whether it succeeded and gives the storage and the memory afterwards.

  A step disturbs a path \<open>p\<close> written from a slice \<open>c\<close> when it is a write or a delete of
  \<open>p\<close>, a rename from or to \<open>p\<close>, a copy onto \<open>p\<close>, an upload whose joined path is \<open>p\<close>, or
  a store into a byte that \<open>c\<close> views. The path is undisturbed by a list of steps when none
  of them both disturbs it and succeeds.
\<close>

datatype step =
    Do_Read string
  | Do_Write string slice
  | Do_Delete string
  | Do_Exists string
  | Do_Rename string string
  | Do_Copy string string
  | Do_CreateDirectory string
  | Do_GetUrl string
  | Do_Open string
  | Do_Upload multipart_File multipart_FileHeader string
  | Caller_Alloc "byte list"
  | Caller_Store addr nat byte

fun perform :: "step \<Rightarrow> MemoryStorage \<times> heap \<Rightarrow> bool \<times> MemoryStorage \<times> heap" where
  "perform (Do_Read p) (fs, h) =
     (case MemoryStorage_Read fs p of (r, fs') \<Rightarrow> (\<not> isl r, fs', h))"
| "perform (Do_Write p c) (fs, h) =
     (case MemoryStorage_Write fs p c of (r, fs') \<Rightarrow> (r = None, fs', h))"
| "perform (Do_Delete p) (fs, h) =
     (case MemoryStorage_Delete fs p of (r, fs') \<Rightarrow> (r = None, fs', h))"
| "perform (Do_Exists p) (fs, h) =
     (case MemoryStorage_Exists fs p of (r, fs') \<Rightarrow> (\<not> isl r, fs', h))"
| "perform (Do_Rename a b) (fs, h) =
     (case MemoryStorage_Rename fs a b of (r, fs') \<Rightarrow> (r = None, fs', h))"
| "perform (Do_Copy a b) (fs, h) =
     (case MemoryStorage_Copy fs a b of (r, fs') \<Rightarrow> (r = None, fs', h))"
| "perform (Do_CreateDirectory p) (fs, h) =
     (case MemoryStorage_CreateDirectory fs p of (r, fs') \<Rightarrow> (r = None, fs', h))"
| "perform (Do_GetUrl p) (fs, h) =
     (case MemoryStorage_GetUrl fs p of (r, fs') \<Rightarrow> (\<not> isl r, fs', h))"
| "perform (Do_Open p) (fs, h) =
     (case MemoryStorage_Open fs p of (r, fs') \<Rightarrow> (\<not> isl r, fs', h))"
| "perform (Do_Upload f hdr d) (fs, h) =
     (case MemoryStorage_Upload fs f hdr d h of (r, fs', h') \<Rightarrow> (\<not> isl r, fs', h'))"
| "perform (Caller_Alloc d) (fs, h) = (True, fs, snd (heap_alloc h d))"
| "perform (Caller_Store a i v) (fs, h) =
     (case heap_store h a i v of None \<Rightarrow> (False, fs, h) | Some h' \<Rightarrow> (True, fs, h'))"

fun run :: "step list \<Rightarrow> MemoryStorage \<times> heap \<Rightarrow> MemoryStorage \<times> heap" where
  "run [] st = st"
| "run (e # es) st = run es (snd (perform e st))"

fun disturbs :: "string \<Rightarrow> slice \<Rightarrow> step \<Rightarrow> bool" where
  "disturbs p c (Do_Write q d) = (q = p)"
| "disturbs p c (Do_Delete q) = (q = p)"
| "disturbs p c (Do_Rename a b) = (a = p \<or> b = p)"
| "disturbs p c (Do_Copy a b) = (b = p)"
| "disturbs p c (Do_Upload f hdr d) = (filepath_Join d (Filename hdr) = p)"
| "disturbs p c (Caller_Store a i v) =
     (a = sl_array c \<and> sl_start c \<le> i \<and> i < sl_start c + sl_len c)"
| "disturbs p c e = False"

fun undisturbed :: "string \<Rightarrow> slice \<Rightarrow> step list \<Rightarrow> MemoryStorage \<times> heap \<Rightarrow> bool" where
  "undisturbed p c [] st = True"
| "undisturbed p c (e # es) st =
     (\<not> (disturbs p c e \<and> fst (perform e st)) \<and> undisturbed p c es (snd (perform e st)))"

text \<open>
  Concrete values for the closed instances below. The example memory holds three arrays:
  \<^verbatim>\<open>"hello!"\<close> at address 0, of which the example slice views the first five bytes,
  \<^verbatim>\<open>"hi"\<close> at address 1 and \<^verbatim>\<open>"bye"\<close> at address 2.
\<close>

definition hello :: "byte list" where
  "hello = [104, 101, 108, 108, 111]"

definition hi :: "byte list" where
  "hi = [104, 105]"

definition bye :: "byte list" where
  "bye = [98, 121, 101]"

definition heap0 :: heap where
  "heap0 = [hello @ [33], hi, bye]"

definition hello_slice :: slice where
  "hello_slice = \<lparr>sl_array = 0, sl_start = 0, sl_len = 5\<rparr>"

definition hi_slice :: slice where
  "hi_slice = \<lparr>sl_array = 1, sl_start = 0, sl_len = 2\<rparr>"

definition bye_slice :: slice where
  "bye_slice = \<lparr>sl_array = 2, sl_start = 0, sl_len = 3\<rparr>"

definition bye_stream :: multipart_File where
  "bye_stream = \<lparr>chunks = [[98, 121], [101]], final = None\<rparr>"

definition hi_stream :: multipart_File where
  "hi_stream = \<lparr>chunks = [hi], final = None\<rparr>"

definition a_txt :: multipart_FileHeader where
  "a_txt = \<lparr>Filename = ''a.txt''\<rparr>"

definition fs_hello :: MemoryStorage where
  "fs_hello = snd (MemoryStorage_Write NewMemoryStorage ''docs/a.txt'' hello_slice)"

definition fs_hi :: MemoryStorage where
  "fs_hi = snd (MemoryStorage_Write NewMemoryStorage ''a.txt'' hi_slice)"

definition other_steps :: "step list" where
  "other_steps =
     [Do_Write ''docs/b.txt'' bye_slice, Do_Copy ''docs/a.txt'' ''docs/c.txt'',
      Caller_Store 2 0 66, Do_Rename ''docs/b.txt'' ''docs/d.txt'',
      Do_Delete ''docs/c.txt'', Caller_Alloc hi, Do_Upload bye_stream a_txt ''tmp'',
      Do_Rename ''missing'' ''docs/a.txt'', Do_CreateDirectory ''docs/'',
      Do_Open ''docs/a.txt'', Caller_Store 0 5 63, Caller_Store 9 0 66]"

definition gcs0 :: GCSStorage where
  "gcs0 = \<lparr>BucketName = ''bucket''\<rparr>"

definition world_with_a :: "error option list \<Rightarrow> World" where
  "world_with_a plan =
     \<lparr>objects = [(''bucket'', ''a.txt'') \<mapsto> hi], temps = [], faults = plan, trace = []\<rparr>"

definition empty_world :: "error option list \<Rightarrow> World" where
  "empty_world plan = \<lparr>objects = Map.empty, temps = [], faults = plan, trace = []\<rparr>"

section \<open>Properties of the library values\<close>

lemmas mem_defs = MemoryStorage_Read_def MemoryStorage_Write_def MemoryStorage_Delete_def
  MemoryStorage_Exists_def MemoryStorage_Rename_def MemoryStorage_Copy_def
  MemoryStorage_CreateDirectory_def MemoryStorage_GetUrl_def MemoryStorage_Open_def
  MemoryStorage_Upload_def NewMemoryStorage_def zero_MemoryStorage_def entry_def
  assign_entry_def delete_entry_def Let_def

lemmas lib_defs = io_Copy_Buffer_def heap_alloc_def heap_store_def array_at_def
  slice_bytes_def valid_slice_def Buffer_Bytes_def bytes_NewBuffer_def bytes_NewReader_def
  io_NopCloser_def io_ReadAll_in_def io_ReadAll_def strings_HasSuffix_def filepath_Join_def
  filepath_Clean_def clean_element_def

lemmas gcs_defs = GCSStorage_Read_def GCSStorage_Write_def GCSStorage_Delete_def
  GCSStorage_Exists_def GCSStorage_Copy_def GCSStorage_Rename_def GCSStorage_GetUrl_def
  GCSStorage_Open_def GCSStorage_Upload_def

lemmas client_defs = external_def Object_NewWriter_def Writer_Write_def Writer_Close_def
  Object_Delete_def Object_Attrs_def Copier_Run_def Object_NewReader_def Reader_Close_def
  os_CreateTemp_def update_file_def io_Copy_File_def File_Seek_start_def File_Close_def

lemma Bytes_NewBuffer: "Buffer_Bytes (bytes_NewBuffer c) = c"
  by (simp add: Buffer_Bytes_def bytes_NewBuffer_def)

lemma slice_bytes_alloc:
  assumes "valid_slice h c"
  shows "slice_bytes (h @ [d]) c = slice_bytes h c" and "valid_slice (h @ [d]) c"
  using assms by (auto simp: slice_bytes_def valid_slice_def array_at_def nth_append)

lemma slice_bytes_allocated: "heap_alloc h d = (p, h') \<Longrightarrow> slice_bytes h' p = d"
  by (auto simp: heap_alloc_def slice_bytes_def array_at_def)

lemma region_update:
  assumes "\<not> (n \<le> i \<and> i < n + k)"
  shows "take k (drop n (xs[i := v])) = take k (drop n xs)"
proof (cases "i < n")
  case True
  then show ?thesis by (simp add: drop_update_cancel)
next
  case False
  with assms have "k \<le> i - n" by simp
  with False show ?thesis by (simp add: drop_update_swap take_update_cancel)
qed

lemma slice_bytes_store:
  assumes "valid_slice h c" and "heap_store h a i v = Some h'"
    and "\<not> (a = sl_array c \<and> sl_start c \<le> i \<and> i < sl_start c + sl_len c)"
  shows "slice_bytes h' c = slice_bytes h c" and "valid_slice h' c"
proof -
  from assms(2) have a: "a < length h" and h': "h' = h[a := (h ! a)[i := v]]"
    by (auto simp: heap_store_def split: if_splits)
  show "valid_slice h' c"
    using assms(1) a by (auto simp: valid_slice_def h' nth_list_update)
  show "slice_bytes h' c = slice_bytes h c"
  proof (cases "a = sl_array c")
    case False
    then show ?thesis by (simp add: slice_bytes_def array_at_def h')
  next
    case True
    with assms(3) have "\<not> (sl_start c \<le> i \<and> i < sl_start c + sl_len c)" by simp
    from region_update [OF this] True a show ?thesis
      by (simp add: slice_bytes_def array_at_def h')
  qed
qed

lemma HasSuffix_slash: "strings_HasSuffix path ''/'' = (path \<noteq> [] \<and> last path = CHR ''/'')"
  by (cases path rule: rev_cases) (auto simp: strings_HasSuffix_def)

lemma HasSuffix_suffix: "strings_HasSuffix str suf = suffix suf str"
proof
  assume "strings_HasSuffix str suf"
  then have "str = take (length str - length suf) str @ suf"
    by (metis append_take_drop_id strings_HasSuffix_def)
  then show "suffix suf str" by (rule suffixI)
next
  assume "suffix suf str"
  then obtain pre where "str = pre @ suf" by (rule suffixE)
  then show "strings_HasSuffix str suf" by (simp add: strings_HasSuffix_def)
qed

lemma filepath_Join_examples:
  "filepath_Join ''docs'' ''a.txt'' = ''docs/a.txt''"
  "filepath_Join ''docs/'' ''a.txt'' = ''docs/a.txt''"
  "filepath_Join [] ''a.txt'' = ''a.txt''"
  "filepath_Join ''docs'' ''../a.txt'' = ''a.txt''"
  by (simp_all add: filepath_Join_def filepath_Clean_def clean_element_def)

section \<open>The memory backend: reading, writing, deleting\<close>

text \<open>Lookups after an assignment and after a delete, and what each method does to the map.\<close>

lemma entry_assign:
  "assign_entry fs p f = Some fs' \<Longrightarrow> entry fs' q = (if q = p then Some f else entry fs q)"
  by (auto simp: assign_entry_def entry_def split: option.splits)

lemma assign_entry_None: "assign_entry fs p f = None \<longleftrightarrow> files fs = None"
  by (simp add: assign_entry_def split: option.splits)

lemma entry_delete: "entry (delete_entry fs p) q = (if q = p then None else entry fs q)"
  by (auto simp: delete_entry_def entry_def split: option.splits)

lemma entry_present_allocated: "entry fs p = Some f \<Longrightarrow> files fs \<noteq> None"
  by (auto simp: entry_def split: option.splits)

lemma Read_stored:
  "entry fs p = Some f \<Longrightarrow>
     MemoryStorage_Read fs p = (Inr (bytes_Reader (Buffer_Bytes (Content f)) 0), fs)"
  by (simp add: MemoryStorage_Read_def io_NopCloser_def bytes_NewReader_def)

lemma GetUrl_eq:
  "MemoryStorage_GetUrl fs p =
     (if entry fs p = None then Inl ErrNotExist else Inr (''mem://'' @ p), fs)"
  by (simp add: MemoryStorage_GetUrl_def MemoryStorage_Exists_def)

lemma Write_eq:
  "MemoryStorage_Write fs p c =
     (case files fs of
        None \<Rightarrow> (Some nil_map_panic, fs)
      | Some m \<Rightarrow>
          (None, fs\<lparr>files := Some (m(p \<mapsto> \<lparr>Name = p, Content = bytes_NewBuffer c\<rparr>))\<rparr>))"
  by (simp add: MemoryStorage_Write_def assign_entry_def split: option.splits)

lemma Rename_present:
  "entry fs a = Some f \<Longrightarrow>
     fst (MemoryStorage_Rename fs a b) = None \<and>
     entry (snd (MemoryStorage_Rename fs a b)) q
       = (if q = a then None else if q = b then Some f else entry fs q)"
  by (auto simp: MemoryStorage_Rename_def entry_def assign_entry_def delete_entry_def
      split: option.splits)

lemma Copy_present:
  "entry fs a = Some f \<Longrightarrow>
     fst (MemoryStorage_Copy fs a b) = None \<and>
     entry (snd (MemoryStorage_Copy fs a b)) q
       = (if q = b then Some \<lparr>Name = b, Content = bytes_NewBuffer (Buffer_Bytes (Content f))\<rparr>
          else entry fs q)"
  by (auto simp: MemoryStorage_Copy_def entry_def assign_entry_def split: option.splits)

lemma Delete_present:
  "entry fs a = Some f \<Longrightarrow>
     fst (MemoryStorage_Delete fs a) = None \<and>
     entry (snd (MemoryStorage_Delete fs a)) q = (if q = a then None else entry fs q)"
  by (auto simp: MemoryStorage_Delete_def entry_delete)

lemma Write_entry:
  "entry (snd (MemoryStorage_Write fs p c)) q
     = (if q = p \<and> files fs \<noteq> None then Some \<lparr>Name = p, Content = bytes_NewBuffer c\<rparr>
        else entry fs q)"
  by (auto simp: Write_eq entry_def split: option.splits)

lemma Upload_eq:
  "MemoryStorage_Upload fs file header dir h =
     (case final file of
        Some err \<Rightarrow> (Inl err, fs, h @ [concat (chunks file)])
      | None \<Rightarrow>
          (case files fs of
             None \<Rightarrow> (Inl nil_map_panic, fs, h @ [concat (chunks file)])
           | Some m \<Rightarrow>
               (Inr None,
                fs\<lparr>files := Some (m(filepath_Join dir (Filename header) \<mapsto>
                  \<lparr>Name = filepath_Join dir (Filename header),
                   Content = \<lparr>buf = \<lparr>sl_array = length h, sl_start = 0,
                                      sl_len = length (concat (chunks file))\<rparr>, off = 0\<rparr>\<rparr>))\<rparr>,
                h @ [concat (chunks file)])))"
  by (simp add: MemoryStorage_Upload_def io_Copy_Buffer_def heap_alloc_def assign_entry_def
      Let_def split: option.splits)

text \<open>The scenario of the specification's testable properties 6 and 7.\<close>

lemma memory_scenario:
  "fst (MemoryStorage_Exists fs_hello ''docs/a.txt'') = Inr True \<and>
   fst (MemoryStorage_Read fs_hello ''docs/a.txt'') = Inr (bytes_Reader hello_slice 0) \<and>
   io_ReadAll_in heap0 (bytes_Reader hello_slice 0) = hello \<and>
   fst (MemoryStorage_Delete fs_hello ''docs/a.txt'') = None \<and>
   fst (MemoryStorage_Exists (snd (MemoryStorage_Delete fs_hello ''docs/a.txt'')) ''docs/a.txt'')
     = Inr False \<and>
   fst (MemoryStorage_CreateDirectory NewMemoryStorage ''docs'') = Some directory_error \<and>
   fst (MemoryStorage_CreateDirectory NewMemoryStorage ''docs/'') = None"
  by (simp add: fs_hello_def hello_def heap0_def hello_slice_def mem_defs lib_defs)

text \<open>On the zero value of the struct, \<^verbatim>\<open>Write\<close> panics and leaves the storage as it was.\<close>

lemma memory_Write_zero_value:
  "MemoryStorage_Write zero_MemoryStorage p c = (Some nil_map_panic, zero_MemoryStorage)"
  by (simp add: MemoryStorage_Write_def assign_entry_def zero_MemoryStorage_def)

text \<open>
  A step that does not both disturb a path and succeed leaves the entry of the path and the
  bytes its slice views alone.
\<close>

lemma perform_keeps:
  assumes "\<not> (disturbs p c e \<and> fst (perform e (fs, h)))" and "valid_slice h c"
  shows "entry (fst (snd (perform e (fs, h)))) p = entry fs p"
    and "slice_bytes (snd (snd (perform e (fs, h)))) c = slice_bytes h c"
    and "valid_slice (snd (snd (perform e (fs, h)))) c"
proof -
  have "entry (fst (snd (perform e (fs, h)))) p = entry fs p \<and>
        slice_bytes (snd (snd (perform e (fs, h)))) c = slice_bytes h c \<and>
        valid_slice (snd (snd (perform e (fs, h)))) c"
  proof (cases e)
    case (Do_Write q d)
    with assms show ?thesis by (auto simp: Write_eq entry_def split: option.splits)
  next
    case (Do_Delete q)
    with assms show ?thesis
      by (cases "entry fs q") (auto simp: MemoryStorage_Delete_def entry_delete)
  next
    case (Do_Rename a b)
    show ?thesis
    proof (cases "entry fs a")
      case None
      with Do_Rename assms show ?thesis by (simp add: MemoryStorage_Rename_def)
    next
      case (Some f)
      from Rename_present [OF Some, of b p] Do_Rename assms show ?thesis
        by (auto simp: split_beta)
    qed
  next
    case (Do_Copy a b)
    show ?thesis
    proof (cases "entry fs a")
      case None
      with Do_Copy assms show ?thesis by (simp add: MemoryStorage_Copy_def)
    next
      case (Some f)
      from Copy_present [OF Some, of b p] Do_Copy assms show ?thesis
        by (auto simp: split_beta)
    qed
  next
    case (Do_Upload f hdr d)
    with assms show ?thesis
      by (auto simp: Upload_eq entry_def slice_bytes_alloc split: option.splits)
  next
    case (Caller_Alloc d)
    with assms show ?thesis by (simp add: heap_alloc_def slice_bytes_alloc)
  next
    case (Caller_Store a i v)
    show ?thesis
    proof (cases "heap_store h a i v")
      case None
      with Caller_Store assms show ?thesis by simp
    next
      case (Some h')
      with Caller_Store assms(1)
      have "\<not> (a = sl_array c \<and> sl_start c \<le> i \<and> i < sl_start c + sl_len c)" by simp
      from slice_bytes_store [OF assms(2) Some this] Some Caller_Store show ?thesis by simp
    qed
  qed (use assms in \<open>auto simp: MemoryStorage_Read_def MemoryStorage_Exists_def
        MemoryStorage_CreateDirectory_def GetUrl_eq MemoryStorage_Open_def
        split: option.splits\<close>)
  then show "entry (fst (snd (perform e (fs, h)))) p = entry fs p"
    and "slice_bytes (snd (snd (perform e (fs, h)))) c = slice_bytes h c"
    and "valid_slice (snd (snd (perform e (fs, h)))) c" by simp_all
qed

lemma run_keeps:
  assumes "undisturbed p c es (fs, h)" and "valid_slice h c"
  shows "entry (fst (run es (fs, h))) p = entry fs p \<and>
    slice_bytes (snd (run es (fs, h))) c = slice_bytes h c"
  using assms
proof (induction es arbitrary: fs h)
  case Nil
  then show ?case by simp
next
  case (Cons e es)
  obtain ok fs1 h1 where p: "perform e (fs, h) = (ok, fs1, h1)"
    by (cases "perform e (fs, h)") auto
  from Cons.prems(1) have step: "\<not> (disturbs p c e \<and> fst (perform e (fs, h)))"
    and rest: "undisturbed p c es (fs1, h1)" by (simp_all add: p)
  from perform_keeps [OF step Cons.prems(2)] p
  have k: "entry fs1 p = entry fs p" "slice_bytes h1 c = slice_bytes h c" "valid_slice h1 c"
    by simp_all
  from Cons.IH [OF rest k(3)] k(1,2) show ?case by (simp add: p)
qed

text \<open>
  C1, as stated, lists what may change the contents \<^verbatim>\<open>Read(p)\<close> returns after
  \<^verbatim>\<open>Write(p, c)\<close>: another write, a delete, a rename or a copy. Two things outside that list
  change them. \<^verbatim>\<open>Write\<close> keeps the caller's slice instead of copying it, so after
  \<^verbatim>\<open>Write("docs/a.txt", c)\<close> with \<open>c\<close> holding \<^verbatim>\<open>"hello"\<close>, the caller's store \<^verbatim>\<open>c[0] = 'H'\<close>
  makes \<^verbatim>\<open>Read("docs/a.txt")\<close> yield \<^verbatim>\<open>"Hello"\<close>. And an upload stores its stream under the
  joined path: a successful upload of the stream \<^verbatim>\<open>"bye"\<close> with file name \<^verbatim>\<open>a.txt\<close> into
  \<^verbatim>\<open>docs\<close> makes \<^verbatim>\<open>Read("docs/a.txt")\<close> yield \<^verbatim>\<open>"bye"\<close>.
\<close>

theorem memory_Write_Read_disturbed_counterexample:
  "fst (MemoryStorage_Write NewMemoryStorage ''docs/a.txt'' hello_slice) = None \<and>
   slice_bytes heap0 hello_slice = hello \<and>
   fst (perform (Caller_Store 0 0 72) (fs_hello, heap0)) \<and>
   fst (MemoryStorage_Read (fst (run [Caller_Store 0 0 72] (fs_hello, heap0))) ''docs/a.txt'')
     = Inr (bytes_Reader hello_slice 0) \<and>
   io_ReadAll_in (snd (run [Caller_Store 0 0 72] (fs_hello, heap0))) (bytes_Reader hello_slice 0)
     = [72, 101, 108, 108, 111] \<and>
   [72, 101, 108, 108, 111] \<noteq> hello \<and>
   fst (perform (Do_Upload bye_stream a_txt ''docs'') (fs_hello, heap0)) \<and>
   fst (MemoryStorage_Read (fst (run [Do_Upload bye_stream a_txt ''docs''] (fs_hello, heap0)))
          ''docs/a.txt'')
     = Inr (bytes_Reader \<lparr>sl_array = 3, sl_start = 0, sl_len = 3\<rparr> 0) \<and>
   io_ReadAll_in (snd (run [Do_Upload bye_stream a_txt ''docs''] (fs_hello, heap0)))
       (bytes_Reader \<lparr>sl_array = 3, sl_start = 0, sl_len = 3\<rparr> 0) = bye \<and>
   bye \<noteq> hello"
  by (simp add: fs_hello_def bye_stream_def a_txt_def hello_def hi_def bye_def heap0_def
      hello_slice_def mem_defs lib_defs)

text \<open>
  C1 (amended): for the memory backend, for every path \<open>p\<close> and slice \<open>c\<close> (the empty one
  included), \<^verbatim>\<open>Write(p, c)\<close> succeeds exactly when the map of the storage is allocated, as
  \<^verbatim>\<open>NewMemoryStorage\<close> makes it, and panics otherwise. After a successful write of a valid
  slice, and after any steps among which there is no successful write or delete of \<open>p\<close>,
  rename from or to \<open>p\<close>, copy onto \<open>p\<close>, upload stored at \<open>p\<close>, or store by the caller
  into a byte that \<open>c\<close> views, \<^verbatim>\<open>Read(p)\<close> yields a reader whose full contents are exactly the
  bytes \<open>c\<close> had when it was written.
\<close>

theorem memory_Write_Read_undisturbed:
  "(fst (MemoryStorage_Write fs p c) = None \<longleftrightarrow> files fs \<noteq> None) \<and>
   (fst (MemoryStorage_Write fs p c) = Some nil_map_panic \<longleftrightarrow> files fs = None) \<and>
   (fst (MemoryStorage_Write fs p c) = None \<and> valid_slice h c \<and>
    undisturbed p c es (snd (MemoryStorage_Write fs p c), h) \<longrightarrow>
      (\<exists>r. fst (MemoryStorage_Read (fst (run es (snd (MemoryStorage_Write fs p c), h))) p) = Inr r \<and>
           io_ReadAll_in (snd (run es (snd (MemoryStorage_Write fs p c), h))) r = slice_bytes h c))"
proof (intro conjI impI)
  show "fst (MemoryStorage_Write fs p c) = None \<longleftrightarrow> files fs \<noteq> None"
    by (simp add: Write_eq split: option.splits)
  show "fst (MemoryStorage_Write fs p c) = Some nil_map_panic \<longleftrightarrow> files fs = None"
    by (simp add: Write_eq split: option.splits)
next
  let ?fs1 = "snd (MemoryStorage_Write fs p c)"
  assume a: "fst (MemoryStorage_Write fs p c) = None \<and> valid_slice h c \<and>
    undisturbed p c es (?fs1, h)"
  then have alloc: "files fs \<noteq> None" by (simp add: Write_eq split: option.splits)
  then have stored: "entry ?fs1 p = Some \<lparr>Name = p, Content = bytes_NewBuffer c\<rparr>"
    by (simp add: Write_entry)
  from a have u: "undisturbed p c es (?fs1, h)" and v: "valid_slice h c" by simp_all
  from run_keeps [OF u v] stored
  have e: "entry (fst (run es (?fs1, h))) p = Some \<lparr>Name = p, Content = bytes_NewBuffer c\<rparr>"
    and b: "slice_bytes (snd (run es (?fs1, h))) c = slice_bytes h c" by simp_all
  from e have "fst (MemoryStorage_Read (fst (run es (?fs1, h))) p) = Inr (bytes_Reader c 0)"
    by (simp add: Read_stored Bytes_NewBuffer)
  moreover have "io_ReadAll_in (snd (run es (?fs1, h))) (bytes_Reader c 0) = slice_bytes h c"
    using b by (simp add: io_ReadAll_in_def)
  ultimately show "\<exists>r. fst (MemoryStorage_Read (fst (run es (?fs1, h))) p) = Inr r \<and>
           io_ReadAll_in (snd (run es (?fs1, h))) r = slice_bytes h c"
    by blast
qed

text \<open>
  An instance: after \<^verbatim>\<open>Write("docs/a.txt", c)\<close> on a new storage, with \<open>c\<close> viewing the array
  \<^verbatim>\<open>"hello!"\<close> up to its fifth byte, twelve steps on other paths and other bytes (among them
  a failing rename onto the path, a store into the sixth byte of the same array and a
  store outside every array) leave the contents read back unchanged.
\<close>

theorem memory_Write_Read_undisturbed_witness:
  "fst (MemoryStorage_Write NewMemoryStorage ''docs/a.txt'' hello_slice) = None \<and>
   valid_slice heap0 hello_slice \<and>
   undisturbed ''docs/a.txt'' hello_slice other_steps
     (snd (MemoryStorage_Write NewMemoryStorage ''docs/a.txt'' hello_slice), heap0) \<and>
   io_ReadAll_in
     (snd (run other_steps (snd (MemoryStorage_Write NewMemoryStorage ''docs/a.txt'' hello_slice), heap0)))
     (projr (fst (MemoryStorage_Read
        (fst (run other_steps
           (snd (MemoryStorage_Write NewMemoryStorage ''docs/a.txt'' hello_slice), heap0)))
        ''docs/a.txt''))) = hello"
proof -
  let ?fs1 = "snd (MemoryStorage_Write NewMemoryStorage ''docs/a.txt'' hello_slice)"
  have w: "fst (MemoryStorage_Write NewMemoryStorage ''docs/a.txt'' hello_slice) = None"
    by (simp add: mem_defs)
  have v: "valid_slice heap0 hello_slice"
    by (simp add: valid_slice_def heap0_def hello_slice_def hello_def)
  have u: "undisturbed ''docs/a.txt'' hello_slice other_steps (?fs1, heap0)"
    by (simp add: other_steps_def bye_stream_def a_txt_def hello_def hi_def bye_def heap0_def
        hello_slice_def bye_slice_def mem_defs lib_defs)
  have b: "slice_bytes heap0 hello_slice = hello"
    by (simp add: slice_bytes_def array_at_def heap0_def hello_slice_def hello_def)
  from memory_Write_Read_undisturbed [of NewMemoryStorage "''docs/a.txt''" hello_slice heap0 other_steps]
    w v u b
  show ?thesis by auto
qed

text \<open>
  C7: for the memory backend, \<^verbatim>\<open>Delete(p)\<close> on an absent \<open>p\<close> returns the not-found error and
  leaves the storage as it was; on a present \<open>p\<close> it succeeds, and \<^verbatim>\<open>Exists(p)\<close> is false
  afterwards.
\<close>

theorem memory_Delete_absent_present:
  "(entry fs p = None \<longrightarrow> MemoryStorage_Delete fs p = (Some ErrNotExist, fs)) \<and>
   (entry fs p \<noteq> None \<longrightarrow>
      fst (MemoryStorage_Delete fs p) = None \<and>
      fst (MemoryStorage_Exists (snd (MemoryStorage_Delete fs p)) p) = Inr False)"
  by (auto simp: MemoryStorage_Delete_def MemoryStorage_Exists_def entry_delete)

theorem memory_Delete_absent_present_witness:
  "entry NewMemoryStorage ''a.txt'' = None \<and>
   MemoryStorage_Delete NewMemoryStorage ''a.txt'' = (Some ErrNotExist, NewMemoryStorage) \<and>
   entry fs_hi ''a.txt'' \<noteq> None \<and>
   fst (MemoryStorage_Delete fs_hi ''a.txt'') = None \<and>
   fst (MemoryStorage_Exists (snd (MemoryStorage_Delete fs_hi ''a.txt'')) ''a.txt'') = Inr False"
proof -
  have absent: "entry NewMemoryStorage ''a.txt'' = None"
    by (simp add: NewMemoryStorage_def entry_def)
  have present: "entry fs_hi ''a.txt'' \<noteq> None"
    by (simp add: fs_hi_def mem_defs)
  from memory_Delete_absent_present [of NewMemoryStorage "''a.txt''"]
    memory_Delete_absent_present [of fs_hi "''a.txt''"] absent present
  show ?thesis by simp
qed

text \<open>
  C8: for the memory backend, \<^verbatim>\<open>CreateDirectory(path)\<close> returns the validation error exactly
  when \<open>path\<close> does not end with \<^verbatim>\<open>/\<close>, returns no error otherwise, and in both cases leaves
  the storage (and so the mapping of files) unchanged.
\<close>

theorem memory_CreateDirectory_validates:
  "(fst (MemoryStorage_CreateDirectory fs path) = Some directory_error
      \<longleftrightarrow> \<not> (path \<noteq> [] \<and> last path = CHR ''/'')) \<and>
   (fst (MemoryStorage_CreateDirectory fs path) = None
      \<longleftrightarrow> (path \<noteq> [] \<and> last path = CHR ''/'')) \<and>
   snd (MemoryStorage_CreateDirectory fs path) = fs \<and>
   files (snd (MemoryStorage_CreateDirectory fs path)) = files fs"
  by (simp add: MemoryStorage_CreateDirectory_def HasSuffix_slash)

section \<open>The memory backend: renaming and copying\<close>

text \<open>
  C4, as stated, covers equal paths: renaming \<^verbatim>\<open>a.txt\<close> to itself succeeds, and afterwards
  \<^verbatim>\<open>Read("a.txt")\<close> fails, so it does not return what it returned before the rename.
\<close>

theorem memory_Rename_same_path_counterexample:
  "fst (MemoryStorage_Rename fs_hi ''a.txt'' ''a.txt'') = None \<and>
   fst (MemoryStorage_Read fs_hi ''a.txt'') = Inr (bytes_Reader hi_slice 0) \<and>
   fst (MemoryStorage_Read (snd (MemoryStorage_Rename fs_hi ''a.txt'' ''a.txt'')) ''a.txt'')
     \<noteq> fst (MemoryStorage_Read fs_hi ''a.txt'')"
  by (simp add: fs_hi_def hi_slice_def mem_defs lib_defs)

text \<open>
  C4 (amended): for the memory backend, for all paths \<open>a\<close> and \<open>b\<close>, \<^verbatim>\<open>Rename(a, b)\<close> fails
  with the not-found error exactly when \<open>a\<close> is absent and succeeds otherwise; after a
  successful rename \<^verbatim>\<open>Exists(a)\<close> is false and, when \<open>a\<close> and \<open>b\<close> are distinct, \<^verbatim>\<open>Read(b)\<close>
  returns what \<^verbatim>\<open>Read(a)\<close> returned immediately before the rename.
\<close>

theorem memory_Rename_moves:
  "(fst (MemoryStorage_Rename fs a b) = Some ErrNotExist \<longleftrightarrow> entry fs a = None) \<and>
   (fst (MemoryStorage_Rename fs a b) = None \<longleftrightarrow> entry fs a \<noteq> None) \<and>
   (fst (MemoryStorage_Rename fs a b) = None \<longrightarrow>
      fst (MemoryStorage_Exists (snd (MemoryStorage_Rename fs a b)) a) = Inr False \<and>
      (a \<noteq> b \<longrightarrow>
        (\<exists>r. fst (MemoryStorage_Read fs a) = Inr r \<and>
             fst (MemoryStorage_Read (snd (MemoryStorage_Rename fs a b)) b) = Inr r)))"
proof (cases "entry fs a")
  case None
  then show ?thesis by (simp add: MemoryStorage_Rename_def)
next
  case (Some f)
  from Rename_present [OF Some, of b a] Rename_present [OF Some, of b b] Some
  show ?thesis by (simp add: MemoryStorage_Exists_def Read_stored)
qed

theorem memory_Rename_moves_witness:
  "fst (MemoryStorage_Rename fs_hi ''a.txt'' ''b.txt'') = None \<and>
   fst (MemoryStorage_Exists (snd (MemoryStorage_Rename fs_hi ''a.txt'' ''b.txt'')) ''a.txt'')
     = Inr False \<and>
   ''a.txt'' \<noteq> ''b.txt'' \<and>
   fst (MemoryStorage_Read fs_hi ''a.txt'') = Inr (bytes_Reader hi_slice 0) \<and>
   fst (MemoryStorage_Read (snd (MemoryStorage_Rename fs_hi ''a.txt'' ''b.txt'')) ''b.txt'')
     = Inr (bytes_Reader hi_slice 0)"
proof -
  have ok: "fst (MemoryStorage_Rename fs_hi ''a.txt'' ''b.txt'') = None"
    by (simp add: fs_hi_def mem_defs)
  have before: "fst (MemoryStorage_Read fs_hi ''a.txt'') = Inr (bytes_Reader hi_slice 0)"
    by (simp add: fs_hi_def hi_slice_def mem_defs lib_defs)
  from memory_Rename_moves [of fs_hi "''a.txt''" "''b.txt''"] ok before
  show ?thesis by auto
qed

text \<open>
  C10: for the memory backend, \<^verbatim>\<open>Rename(p, p)\<close> on a present \<open>p\<close> succeeds and removes the
  entry: afterwards \<^verbatim>\<open>Exists(p)\<close> is false and \<^verbatim>\<open>Read(p)\<close> returns the not-found error.
\<close>

theorem memory_Rename_onto_itself_removes:
  assumes "entry fs p \<noteq> None"
  shows "fst (MemoryStorage_Rename fs p p) = None \<and>
    fst (MemoryStorage_Exists (snd (MemoryStorage_Rename fs p p)) p) = Inr False \<and>
    fst (MemoryStorage_Read (snd (MemoryStorage_Rename fs p p)) p) = Inl ErrNotExist"
proof -
  from assms obtain f where f: "entry fs p = Some f" by auto
  from Rename_present [OF f, of p p] show ?thesis
    by (simp add: MemoryStorage_Exists_def MemoryStorage_Read_def)
qed

theorem memory_Rename_onto_itself_removes_witness:
  "entry fs_hello ''docs/a.txt'' \<noteq> None \<and>
   fst (MemoryStorage_Rename fs_hello ''docs/a.txt'' ''docs/a.txt'') = None \<and>
   fst (MemoryStorage_Exists (snd (MemoryStorage_Rename fs_hello ''docs/a.txt'' ''docs/a.txt''))
          ''docs/a.txt'') = Inr False \<and>
   fst (MemoryStorage_Read (snd (MemoryStorage_Rename fs_hello ''docs/a.txt'' ''docs/a.txt''))
          ''docs/a.txt'') = Inl ErrNotExist"
proof -
  have present: "entry fs_hello ''docs/a.txt'' \<noteq> None"
    by (simp add: fs_hello_def mem_defs)
  from memory_Rename_onto_itself_removes [OF present] present show ?thesis by simp
qed

text \<open>
  C5: for the memory backend, \<^verbatim>\<open>Copy(a, b)\<close> fails with the not-found error exactly when \<open>a\<close>
  is absent and succeeds otherwise; for distinct \<open>a\<close> and \<open>b\<close>, after a successful copy
  \<^verbatim>\<open>Read(a)\<close> and \<^verbatim>\<open>Read(b)\<close> return the same reader contents (those \<^verbatim>\<open>Read(a)\<close> returned
  before), \<open>a\<close> is still present, and any later \<^verbatim>\<open>Write(b, c')\<close> succeeds, makes \<^verbatim>\<open>Read(b)\<close>
  return \<open>c'\<close> and leaves \<^verbatim>\<open>Read(a)\<close> as it was.
\<close>

theorem memory_Copy_duplicates:
  "(fst (MemoryStorage_Copy fs a b) = Some ErrNotExist \<longleftrightarrow> entry fs a = None) \<and>
   (fst (MemoryStorage_Copy fs a b) = None \<longleftrightarrow> entry fs a \<noteq> None) \<and>
   (a \<noteq> b \<longrightarrow> fst (MemoryStorage_Copy fs a b) = None \<longrightarrow>
      (\<exists>r. fst (MemoryStorage_Read (snd (MemoryStorage_Copy fs a b)) a) = Inr r \<and>
           fst (MemoryStorage_Read (snd (MemoryStorage_Copy fs a b)) b) = Inr r \<and>
           fst (MemoryStorage_Read fs a) = Inr r \<and>
           fst (MemoryStorage_Exists (snd (MemoryStorage_Copy fs a b)) a) = Inr True \<and>
           (\<forall>c'. fst (MemoryStorage_Write (snd (MemoryStorage_Copy fs a b)) b c') = None \<and>
                 fst (MemoryStorage_Read
                   (snd (MemoryStorage_Write (snd (MemoryStorage_Copy fs a b)) b c')) b)
                   = Inr (bytes_Reader c' 0) \<and>
                 fst (MemoryStorage_Read
                   (snd (MemoryStorage_Write (snd (MemoryStorage_Copy fs a b)) b c')) a)
                   = Inr r)))"
proof (cases "entry fs a")
  case None
  then show ?thesis by (simp add: MemoryStorage_Copy_def)
next
  case (Some f)
  let ?fs1 = "snd (MemoryStorage_Copy fs a b)"
  note c = Copy_present [OF Some]
  have ok: "fst (MemoryStorage_Copy fs a b) = None" using c [of b a] by simp
  have ea: "a \<noteq> b \<Longrightarrow> entry ?fs1 a = Some f" using c [of b a] Some by simp
  have eb: "entry ?fs1 b = Some \<lparr>Name = b, Content = bytes_NewBuffer (Buffer_Bytes (Content f))\<rparr>"
    using c [of b b] by simp
  have alloc: "files ?fs1 \<noteq> None" using eb by (rule entry_present_allocated)
  have w: "\<And>c'. fst (MemoryStorage_Write ?fs1 b c') = None"
    using alloc by (auto simp: Write_eq split: option.splits)
  have wb: "\<And>c'. entry (snd (MemoryStorage_Write ?fs1 b c')) b
      = Some \<lparr>Name = b, Content = bytes_NewBuffer c'\<rparr>"
    using alloc by (simp add: Write_entry)
  have wa: "\<And>c'. a \<noteq> b \<Longrightarrow> entry (snd (MemoryStorage_Write ?fs1 b c')) a = Some f"
    using ea by (simp add: Write_entry)
  show ?thesis
    using Some ok ea eb w wb wa
    by (simp add: Read_stored Bytes_NewBuffer MemoryStorage_Exists_def)
qed

theorem memory_Copy_duplicates_witness:
  "''a.txt'' \<noteq> ''b.txt'' \<and>
   fst (MemoryStorage_Copy fs_hi ''a.txt'' ''b.txt'') = None \<and>
   fst (MemoryStorage_Read (snd (MemoryStorage_Copy fs_hi ''a.txt'' ''b.txt'')) ''a.txt'')
     = Inr (bytes_Reader hi_slice 0) \<and>
   fst (MemoryStorage_Read (snd (MemoryStorage_Copy fs_hi ''a.txt'' ''b.txt'')) ''b.txt'')
     = Inr (bytes_Reader hi_slice 0) \<and>
   fst (MemoryStorage_Exists (snd (MemoryStorage_Copy fs_hi ''a.txt'' ''b.txt'')) ''a.txt'')
     = Inr True \<and>
   fst (MemoryStorage_Read
     (snd (MemoryStorage_Write (snd (MemoryStorage_Copy fs_hi ''a.txt'' ''b.txt'')) ''b.txt'' bye_slice))
     ''b.txt'') = Inr (bytes_Reader bye_slice 0) \<and>
   fst (MemoryStorage_Read
     (snd (MemoryStorage_Write (snd (MemoryStorage_Copy fs_hi ''a.txt'' ''b.txt'')) ''b.txt'' bye_slice))
     ''a.txt'') = Inr (bytes_Reader hi_slice 0)"
proof -
  have ne: "''a.txt'' \<noteq> ''b.txt''" by simp
  have ok: "fst (MemoryStorage_Copy fs_hi ''a.txt'' ''b.txt'') = None"
    by (simp add: fs_hi_def mem_defs)
  have before: "fst (MemoryStorage_Read fs_hi ''a.txt'') = Inr (bytes_Reader hi_slice 0)"
    by (simp add: fs_hi_def hi_slice_def mem_defs lib_defs)
  from memory_Copy_duplicates [of fs_hi "''a.txt''" "''b.txt''"] ne ok before
  show ?thesis by auto
qed

section \<open>The Google Cloud Storage backend: URL, rename, write\<close>

lemma external_frame:
  assumes "external c w = (f, w')"
  shows "objects w' = objects w" and "temps w' = temps w" and "trace w' = trace w @ [c]"
  using assms by (auto simp: external_def split: list.splits)

text \<open>
  C9: for the GCS backend, \<^verbatim>\<open>GetUrl(path)\<close> returns, for every path, the string
  \<^verbatim>\<open>https://storage.googleapis.com/\<close> followed by the bucket name, \<^verbatim>\<open>/\<close> and the path, with a
  nil error; it makes no call to the client (the world, and with it the trace of calls, is
  as before), so no existence check takes place.
\<close>

theorem gcs_GetUrl_format:
  "fst (GCSStorage_GetUrl gcs path w)
     = Inr (''https://storage.googleapis.com/'' @ BucketName gcs @ ''/'' @ path) \<and>
   snd (GCSStorage_GetUrl gcs path w) = w \<and>
   trace (snd (GCSStorage_GetUrl gcs path w)) = trace w"
  by (simp add: GCSStorage_GetUrl_def)

lemma Copier_Run_trace:
  "trace (snd (Copier_Run b src dst w)) = trace w @ [Call_Copier_Run b src dst]"
  by (auto simp: Copier_Run_def split: prod.splits option.splits dest: external_frame(3))

lemma Object_Delete_trace:
  "trace (snd (Object_Delete b n w)) = trace w @ [Call_Object_Delete b n]"
  by (auto simp: Object_Delete_def split: prod.splits option.splits dest: external_frame(3))

lemma Copier_Run_success:
  assumes "Copier_Run b src dst w = (None, w1)"
  shows "objects w1 (b, src) \<noteq> None" and "objects w1 (b, dst) \<noteq> None"
  using assms
  by (auto simp: Copier_Run_def split: prod.splits option.splits dest: external_frame(1))

lemma Object_Delete_failure:
  assumes "Object_Delete b n w = (Some e, w2)"
  shows "objects w2 = objects w"
  using assms
  by (auto simp: Object_Delete_def split: prod.splits option.splits dest: external_frame(1))

text \<open>An existence probe that is not itself made to fail reports a stored object.\<close>

lemma gcs_Exists_present:
  assumes "objects w (BucketName gcs, p) \<noteq> None"
  shows "fst (GCSStorage_Exists gcs p (w\<lparr>faults := []\<rparr>)) = Inr True"
  using assms by (auto simp: GCSStorage_Exists_def Object_Attrs_def external_def)

text \<open>
  C6: for the GCS backend, \<^verbatim>\<open>Rename(old, new)\<close> runs the copy and then the delete, in that
  order. If the copy fails, \<^verbatim>\<open>Rename\<close> returns the copy's error and the copy is the only call
  made (the delete is not attempted). If the copy succeeds, \<^verbatim>\<open>Rename\<close> is the delete of
  \<open>old\<close> in the world the copy left, and the calls made are the copy followed by the delete.
  If the delete then fails, \<^verbatim>\<open>Rename\<close> returns the delete's error, the object is stored under
  both paths, and an existence probe of either path reports true.
\<close>

theorem gcs_Rename_copy_then_delete:
  "(\<forall>err w1. GCSStorage_Copy gcs old new w = (Some err, w1) \<longrightarrow>
      GCSStorage_Rename gcs old new w = (Some err, w1) \<and>
      trace w1 = trace w @ [Call_Copier_Run (BucketName gcs) old new]) \<and>
   (\<forall>w1. GCSStorage_Copy gcs old new w = (None, w1) \<longrightarrow>
      GCSStorage_Rename gcs old new w = GCSStorage_Delete gcs old w1 \<and>
      trace (snd (GCSStorage_Rename gcs old new w))
        = trace w @ [Call_Copier_Run (BucketName gcs) old new,
                     Call_Object_Delete (BucketName gcs) old]) \<and>
   (\<forall>w1 err w2. GCSStorage_Copy gcs old new w = (None, w1) \<and>
      GCSStorage_Delete gcs old w1 = (Some err, w2) \<longrightarrow>
      GCSStorage_Rename gcs old new w = (Some err, w2) \<and>
      objects w2 (BucketName gcs, old) \<noteq> None \<and>
      objects w2 (BucketName gcs, new) \<noteq> None \<and>
      fst (GCSStorage_Exists gcs old (w2\<lparr>faults := []\<rparr>)) = Inr True \<and>
      fst (GCSStorage_Exists gcs new (w2\<lparr>faults := []\<rparr>)) = Inr True)"
proof (intro conjI allI impI)
  fix err w1
  assume c: "GCSStorage_Copy gcs old new w = (Some err, w1)"
  then show "GCSStorage_Rename gcs old new w = (Some err, w1)"
    by (simp add: GCSStorage_Rename_def)
  from c have "w1 = snd (Copier_Run (BucketName gcs) old new w)"
    by (simp add: GCSStorage_Copy_def)
  then show "trace w1 = trace w @ [Call_Copier_Run (BucketName gcs) old new]"
    by (simp add: Copier_Run_trace)
next
  fix w1
  assume c: "GCSStorage_Copy gcs old new w = (None, w1)"
  then show r: "GCSStorage_Rename gcs old new w = GCSStorage_Delete gcs old w1"
    by (simp add: GCSStorage_Rename_def)
  from c have "w1 = snd (Copier_Run (BucketName gcs) old new w)"
    by (simp add: GCSStorage_Copy_def)
  then have "trace w1 = trace w @ [Call_Copier_Run (BucketName gcs) old new]"
    by (simp add: Copier_Run_trace)
  then show "trace (snd (GCSStorage_Rename gcs old new w))
        = trace w @ [Call_Copier_Run (BucketName gcs) old new,
                     Call_Object_Delete (BucketName gcs) old]"
    by (simp add: r GCSStorage_Delete_def Object_Delete_trace)
next
  fix w1 err w2
  assume a: "GCSStorage_Copy gcs old new w = (None, w1) \<and>
      GCSStorage_Delete gcs old w1 = (Some err, w2)"
  then show "GCSStorage_Rename gcs old new w = (Some err, w2)"
    by (simp add: GCSStorage_Rename_def)
  from a have "objects w2 = objects w1"
    by (auto simp: GCSStorage_Delete_def dest: Object_Delete_failure)
  moreover from a have "objects w1 (BucketName gcs, old) \<noteq> None"
    and "objects w1 (BucketName gcs, new) \<noteq> None"
    by (auto simp: GCSStorage_Copy_def dest: Copier_Run_success)
  ultimately show both: "objects w2 (BucketName gcs, old) \<noteq> None"
    "objects w2 (BucketName gcs, new) \<noteq> None" by simp_all
  from both show "fst (GCSStorage_Exists gcs old (w2\<lparr>faults := []\<rparr>)) = Inr True"
    and "fst (GCSStorage_Exists gcs new (w2\<lparr>faults := []\<rparr>)) = Inr True"
    by (simp_all add: gcs_Exists_present)
qed

text \<open>
  Two instances on a bucket that holds \<^verbatim>\<open>a.txt\<close>: the copy is made to fail, and the copy
  runs while the delete is made to fail.
\<close>

theorem gcs_Rename_copy_then_delete_witness:
  "GCSStorage_Copy gcs0 ''a.txt'' ''b.txt'' (world_with_a [Some (ErrExternal 3)])
     = (Some (ErrExternal 3),
        (world_with_a [])\<lparr>trace := [Call_Copier_Run ''bucket'' ''a.txt'' ''b.txt'']\<rparr>) \<and>
   GCSStorage_Rename gcs0 ''a.txt'' ''b.txt'' (world_with_a [Some (ErrExternal 3)])
     = (Some (ErrExternal 3),
        (world_with_a [])\<lparr>trace := [Call_Copier_Run ''bucket'' ''a.txt'' ''b.txt'']\<rparr>) \<and>
   fst (GCSStorage_Copy gcs0 ''a.txt'' ''b.txt'' (world_with_a [None, Some (ErrExternal 7)])) = None \<and>
   fst (GCSStorage_Rename gcs0 ''a.txt'' ''b.txt'' (world_with_a [None, Some (ErrExternal 7)]))
     = Some (ErrExternal 7) \<and>
   trace (snd (GCSStorage_Rename gcs0 ''a.txt'' ''b.txt'' (world_with_a [None, Some (ErrExternal 7)])))
     = [Call_Copier_Run ''bucket'' ''a.txt'' ''b.txt'', Call_Object_Delete ''bucket'' ''a.txt''] \<and>
   objects (snd (GCSStorage_Rename gcs0 ''a.txt'' ''b.txt'' (world_with_a [None, Some (ErrExternal 7)])))
     (''bucket'', ''a.txt'') \<noteq> None \<and>
   objects (snd (GCSStorage_Rename gcs0 ''a.txt'' ''b.txt'' (world_with_a [None, Some (ErrExternal 7)])))
     (''bucket'', ''b.txt'') \<noteq> None"
proof -
  let ?w = "world_with_a [Some (ErrExternal 3)]"
  let ?v = "world_with_a [None, Some (ErrExternal 7)]"
  let ?v1 = "snd (GCSStorage_Copy gcs0 ''a.txt'' ''b.txt'' ?v)"
  let ?v2 = "snd (GCSStorage_Delete gcs0 ''a.txt'' ?v1)"
  have c1: "GCSStorage_Copy gcs0 ''a.txt'' ''b.txt'' ?w
     = (Some (ErrExternal 3),
        (world_with_a [])\<lparr>trace := [Call_Copier_Run ''bucket'' ''a.txt'' ''b.txt'']\<rparr>)"
    by (simp add: gcs0_def world_with_a_def gcs_defs client_defs)
  have c2: "GCSStorage_Copy gcs0 ''a.txt'' ''b.txt'' ?v = (None, ?v1)"
    by (simp add: gcs0_def world_with_a_def gcs_defs client_defs)
  have d2: "GCSStorage_Delete gcs0 ''a.txt'' ?v1 = (Some (ErrExternal 7), ?v2)"
    by (simp add: gcs0_def world_with_a_def gcs_defs client_defs)
  note spec1 = gcs_Rename_copy_then_delete [of gcs0 "''a.txt''" "''b.txt''" ?w]
  note spec2 = gcs_Rename_copy_then_delete [of gcs0 "''a.txt''" "''b.txt''" ?v]
  have r1: "GCSStorage_Rename gcs0 ''a.txt'' ''b.txt'' ?w
     = (Some (ErrExternal 3),
        (world_with_a [])\<lparr>trace := [Call_Copier_Run ''bucket'' ''a.txt'' ''b.txt'']\<rparr>)"
    using spec1 c1 by blast
  have r2: "GCSStorage_Rename gcs0 ''a.txt'' ''b.txt'' ?v = (Some (ErrExternal 7), ?v2)"
    and o2: "objects ?v2 (BucketName gcs0, ''a.txt'') \<noteq> None"
            "objects ?v2 (BucketName gcs0, ''b.txt'') \<noteq> None"
    using spec2 c2 d2 by blast+
  have t2: "trace (snd (GCSStorage_Rename gcs0 ''a.txt'' ''b.txt'' ?v))
     = trace ?v @ [Call_Copier_Run (BucketName gcs0) ''a.txt'' ''b.txt'',
                   Call_Object_Delete (BucketName gcs0) ''a.txt'']"
    using spec2 c2 by blast
  have f2: "fst (GCSStorage_Copy gcs0 ''a.txt'' ''b.txt'' ?v) = None"
    by (simp add: gcs0_def world_with_a_def gcs_defs client_defs)
  have b: "BucketName gcs0 = ''bucket''" by (simp add: gcs0_def)
  have t0: "trace ?v = []" by (simp add: world_with_a_def)
  show ?thesis
    using c1 r1 f2 r2 o2 t2 by (simp add: b t0)
qed

text \<open>
  \<^verbatim>\<open>Write\<close> returns what \<^verbatim>\<open>writer.Write\<close> returned: the result of the deferred
  \<^verbatim>\<open>writer.Close()\<close> never reaches the caller.
\<close>

lemma gcs_Write_result:
  "fst (GCSStorage_Write gcs path c w)
     = fst (Writer_Write (Object_NewWriter (BucketName gcs) path) c w)"
  by (simp add: GCSStorage_Write_def Let_def split: prod.splits option.splits)

text \<open>
  C3 asks that the error of closing the object writer be returned by \<^verbatim>\<open>Write\<close>, and that
  \<^verbatim>\<open>Write\<close> return nil only if the put succeeded. On an empty bucket, with
  \<^verbatim>\<open>writer.Write\<close> succeeding and \<^verbatim>\<open>writer.Close\<close> failing, \<^verbatim>\<open>Write("a.txt", "hi")\<close> makes
  both calls, the close returns its error, no object is stored, and \<^verbatim>\<open>Write\<close> returns nil.
\<close>

theorem gcs_Write_drops_Close_error:
  "fst (Writer_Write (Object_NewWriter ''bucket'' ''a.txt'') hi
          (empty_world [None, Some (ErrExternal 5)])) = None \<and>
   fst (Writer_Close
          (fst (snd (Writer_Write (Object_NewWriter ''bucket'' ''a.txt'') hi
                       (empty_world [None, Some (ErrExternal 5)]))))
          (snd (snd (Writer_Write (Object_NewWriter ''bucket'' ''a.txt'') hi
                       (empty_world [None, Some (ErrExternal 5)])))))
     = Some (ErrExternal 5) \<and>
   fst (GCSStorage_Write gcs0 ''a.txt'' hi (empty_world [None, Some (ErrExternal 5)])) = None \<and>
   objects (snd (GCSStorage_Write gcs0 ''a.txt'' hi (empty_world [None, Some (ErrExternal 5)])))
     (''bucket'', ''a.txt'') = None \<and>
   trace (snd (GCSStorage_Write gcs0 ''a.txt'' hi (empty_world [None, Some (ErrExternal 5)])))
     = [Call_Writer_Write ''bucket'' ''a.txt'' hi, Call_Writer_Close ''bucket'' ''a.txt'']"
  by (simp add: gcs0_def empty_world_def hi_def gcs_defs client_defs Let_def)

text \<open>\<^verbatim>\<open>Upload\<close>, on the same plan of failures, does return the error of the close.\<close>

lemma gcs_Upload_reports_Close_error:
  "fst (GCSStorage_Upload gcs0 hi_stream a_txt ''docs'' (empty_world [None, Some (ErrExternal 5)]))
     = Inl (ErrExternal 5)"
  by (simp add: gcs0_def empty_world_def hi_def hi_stream_def a_txt_def gcs_defs client_defs Let_def)

section \<open>Upload on both backends\<close>

text \<open>
  C2, as stated, promises a non-nil handle from every backend. On the memory backend a
  successful upload stores the stream and returns a nil handle with a nil error, and
  \<^verbatim>\<open>Open\<close> of the stored path is an error, not a handle.
\<close>

theorem memory_Upload_nil_handle_counterexample:
  "fst (MemoryStorage_Upload NewMemoryStorage bye_stream a_txt ''docs'' []) = Inr None \<and>
   entry (fst (snd (MemoryStorage_Upload NewMemoryStorage bye_stream a_txt ''docs'' [])))
       ''docs/a.txt''
     = Some \<lparr>Name = ''docs/a.txt'',
             Content = \<lparr>buf = \<lparr>sl_array = 0, sl_start = 0, sl_len = 3\<rparr>, off = 0\<rparr>\<rparr> \<and>
   snd (snd (MemoryStorage_Upload NewMemoryStorage bye_stream a_txt ''docs'' [])) = [bye] \<and>
   fst (MemoryStorage_Open
          (fst (snd (MemoryStorage_Upload NewMemoryStorage bye_stream a_txt ''docs'' [])))
          ''docs/a.txt'') = Inl open_error"
  by (simp add: bye_stream_def a_txt_def bye_def mem_defs lib_defs)

lemma Writer_Write_success:
  assumes "Writer_Write wr p w = (None, wr', w')"
  shows "wr' = wr\<lparr>wr_buf := wr_buf wr @ p\<rparr>" and "wr_err wr = None"
    and "objects w' = objects w" and "temps w' = temps w"
  using assms
  by (auto simp: Writer_Write_def split: prod.splits option.splits dest: external_frame)

lemma io_Copy_Writer_success:
  assumes "io_Copy_Writer wr cs fin w = (None, wr', w')"
  shows "wr' = wr\<lparr>wr_buf := wr_buf wr @ concat cs\<rparr> \<and> objects w' = objects w \<and>
    temps w' = temps w"
  using assms
proof (induction cs arbitrary: wr w)
  case Nil
  then show ?case by simp
next
  case (Cons c cs)
  show ?case
  proof (cases "c = []")
    case True
    with Cons show ?thesis by simp
  next
    case False
    with Cons.prems obtain wr1 w1 where
      step: "Writer_Write wr c w = (None, wr1, w1)" and
      rest: "io_Copy_Writer wr1 cs fin w1 = (None, wr', w')"
      by (auto split: prod.splits option.splits)
    from Cons.IH [OF rest] Writer_Write_success [OF step] show ?thesis by simp
  qed
qed

lemma Writer_Close_success:
  assumes "Writer_Close wr w = (None, w')"
  shows "objects w' = (objects w)((wr_bucket wr, wr_object wr) \<mapsto> wr_buf wr)"
  using assms
  by (auto simp: Writer_Close_def split: prod.splits option.splits dest: external_frame)

lemma Object_NewReader_success:
  assumes "Object_NewReader b n w = (Inr rc, w')"
  shows "objects w (b, n) = Some (io_ReadAll rc)" and "objects w' = objects w"
    and "temps w' = temps w"
  using assms
  by (auto simp: Object_NewReader_def io_ReadAll_def split: prod.splits option.splits
      dest: external_frame)

lemma os_CreateTemp_success:
  assumes "os_CreateTemp w = (Inr f, w')"
  shows "f = length (temps w)"
    and "temps w' = temps w @ [\<lparr>file_data = [], file_offset = 0, file_closed = False\<rparr>]"
    and "objects w' = objects w"
  using assms
  by (auto simp: os_CreateTemp_def split: prod.splits option.splits dest: external_frame)

lemma io_Copy_File_success:
  assumes "io_Copy_File f rc w = (None, w')"
  shows "temps w' = (temps w)[f := (temps w ! f)
            \<lparr>file_data := file_data (temps w ! f) @ io_ReadAll rc,
             file_offset := file_offset (temps w ! f) + length (io_ReadAll rc)\<rparr>]"
    and "objects w' = objects w"
  using assms
  by (auto simp: io_Copy_File_def update_file_def split: prod.splits option.splits
      dest: external_frame)

lemma File_Seek_start_success:
  assumes "File_Seek_start f w = (None, w')"
  shows "temps w' = (temps w)[f := (temps w ! f)\<lparr>file_offset := 0\<rparr>]"
    and "objects w' = objects w"
  using assms
  by (auto simp: File_Seek_start_def update_file_def split: prod.splits option.splits
      dest: external_frame)

lemma Reader_Close_frame:
  "objects (snd (Reader_Close b n w)) = objects w"
  "temps (snd (Reader_Close b n w)) = temps w"
  by (auto simp: Reader_Close_def external_def split: list.splits)

text \<open>
  A successful \<^verbatim>\<open>Open\<close> on the GCS backend returns a new temporary file that holds the
  object's bytes, with the file pointer at the start, and leaves the objects as they were.
\<close>

lemma gcs_Open_success:
  assumes "GCSStorage_Open gcs path w = (Inr h, w')"
  shows "\<exists>d. objects w (BucketName gcs, path) = Some d \<and> h = Some (length (temps w)) \<and>
    temps w' = temps w @ [\<lparr>file_data = d, file_offset = 0, file_closed = False\<rparr>] \<and>
    objects w' = objects w"
proof -
  from assms obtain rc w1 f w2 w3 w4 where
    rd: "Object_NewReader (BucketName gcs) path w = (Inr rc, w1)" and
    ct: "os_CreateTemp w1 = (Inr f, w2)" and
    cp: "io_Copy_File f rc w2 = (None, w3)" and
    sk: "File_Seek_start f w3 = (None, w4)" and
    h: "h = Some f" and w': "w' = snd (Reader_Close (BucketName gcs) path w4)"
    by (auto simp: GCSStorage_Open_def split: prod.splits sum.splits option.splits)
  note r = Object_NewReader_success [OF rd]
  note c = os_CreateTemp_success [OF ct]
  note p = io_Copy_File_success [OF cp]
  note s = File_Seek_start_success [OF sk]
  have f: "f = length (temps w)" using c(1) r(3) by simp
  have t2: "temps w2 = temps w @ [\<lparr>file_data = [], file_offset = 0, file_closed = False\<rparr>]"
    using c(2) r(3) by simp
  have t3: "temps w3 = temps w @ [\<lparr>file_data = io_ReadAll rc,
      file_offset = length (io_ReadAll rc), file_closed = False\<rparr>]"
    using p(1) by (simp add: t2 f)
  have t4: "temps w4 = temps w @
      [\<lparr>file_data = io_ReadAll rc, file_offset = 0, file_closed = False\<rparr>]"
    using s(1) by (simp add: t3 f)
  have o4: "objects w4 = objects w" using s(2) p(2) c(3) r(2) by simp
  show ?thesis
    using r(1) h f t4 o4 by (simp add: w' Reader_Close_frame)
qed


text \<open>
  C2 (amended): on the memory backend, a successful \<^verbatim>\<open>Upload(stream, header, dir)\<close> returns a
  nil handle with a nil error and stores the stream's bytes under
  \<^verbatim>\<open>filepath.Join(dir, header.Filename)\<close>, where \<^verbatim>\<open>Read\<close> returns them. On the GCS backend, a
  successful upload stores the stream's bytes as the object \<^verbatim>\<open>dir + "/" + header.Filename\<close>
  and returns the non-nil handle that \<^verbatim>\<open>Open\<close> returns for that object once it is stored:
  an open temporary file holding those bytes, with its file pointer at the start.
\<close>

theorem Upload_stores_stream:
  "(\<forall>h fs' mem'. MemoryStorage_Upload fs file header dir mem = (Inr h, fs', mem') \<longrightarrow>
      h = None \<and>
      (\<exists>r. fst (MemoryStorage_Read fs' (filepath_Join dir (Filename header))) = Inr r \<and>
           io_ReadAll_in mem' r = concat (chunks file))) \<and>
   (\<forall>h w'. GCSStorage_Upload gcs file header dir w = (Inr h, w') \<longrightarrow>
      objects w' (BucketName gcs, dir @ ''/'' @ Filename header) = Some (concat (chunks file)) \<and>
      (\<exists>f w2. h = Some f \<and>
         objects w2 (BucketName gcs, dir @ ''/'' @ Filename header)
           = Some (concat (chunks file)) \<and>
         GCSStorage_Open gcs (dir @ ''/'' @ Filename header) w2 = (Inr (Some f), w') \<and>
         f < length (temps w') \<and>
         temps w' ! f
           = \<lparr>file_data = concat (chunks file), file_offset = 0, file_closed = False\<rparr>))"
proof (intro conjI allI impI)
  fix h fs' mem'
  assume up: "MemoryStorage_Upload fs file header dir mem = (Inr h, fs', mem')"
  let ?p = "filepath_Join dir (Filename header)"
  let ?s = "\<lparr>sl_array = length mem, sl_start = 0, sl_len = length (concat (chunks file))\<rparr>"
  from up obtain m where fin: "final file = None" and m: "files fs = Some m"
    and h: "h = None" and mem': "mem' = mem @ [concat (chunks file)]"
    and fs': "fs' = fs\<lparr>files := Some (m(?p \<mapsto> \<lparr>Name = ?p, Content = \<lparr>buf = ?s, off = 0\<rparr>\<rparr>))\<rparr>"
    by (auto simp: Upload_eq split: option.splits)
  show "h = None" by (rule h)
  have "entry fs' ?p = Some \<lparr>Name = ?p, Content = \<lparr>buf = ?s, off = 0\<rparr>\<rparr>"
    by (simp add: fs' entry_def)
  then have "fst (MemoryStorage_Read fs' ?p) = Inr (bytes_Reader ?s 0)"
    by (simp add: Read_stored Buffer_Bytes_def)
  moreover have "io_ReadAll_in mem' (bytes_Reader ?s 0) = concat (chunks file)"
    by (simp add: io_ReadAll_in_def slice_bytes_def array_at_def mem')
  ultimately
  show "\<exists>r. fst (MemoryStorage_Read fs' ?p) = Inr r \<and> io_ReadAll_in mem' r = concat (chunks file)"
    by blast
next
  fix h w'
  assume up: "GCSStorage_Upload gcs file header dir w = (Inr h, w')"
  let ?p = "dir @ ''/'' @ Filename header"
  let ?wc = "Object_NewWriter (BucketName gcs) ?p"
  from up obtain wc' w1 w2 where
    cp: "io_Copy_Writer ?wc (chunks file) (final file) w = (None, wc', w1)" and
    cl: "Writer_Close wc' w1 = (None, w2)" and
    op: "GCSStorage_Open gcs ?p w2 = (Inr h, w')"
    by (auto simp: GCSStorage_Upload_def Let_def split: prod.splits option.splits)
  from io_Copy_Writer_success [OF cp]
  have wc': "wc' = ?wc\<lparr>wr_buf := concat (chunks file)\<rparr>"
    by (simp add: Object_NewWriter_def)
  from Writer_Close_success [OF cl]
  have o2: "objects w2 (BucketName gcs, ?p) = Some (concat (chunks file))"
    by (simp add: wc' Object_NewWriter_def)
  from gcs_Open_success [OF op] o2
  have h: "h = Some (length (temps w2))"
    and t: "temps w' = temps w2 @
      [\<lparr>file_data = concat (chunks file), file_offset = 0, file_closed = False\<rparr>]"
    and o: "objects w' = objects w2"
    by auto
  show "objects w' (BucketName gcs, ?p) = Some (concat (chunks file))"
    using o o2 by simp
  show "\<exists>f w2. h = Some f \<and>
         objects w2 (BucketName gcs, ?p) = Some (concat (chunks file)) \<and>
         GCSStorage_Open gcs ?p w2 = (Inr (Some f), w') \<and>
         f < length (temps w') \<and>
         temps w' ! f
           = \<lparr>file_data = concat (chunks file), file_offset = 0, file_closed = False\<rparr>"
    using op o2 h t by (intro exI [of _ "length (temps w2)"] exI [of _ w2]) simp
qed

text \<open>
  An instance on each backend: the stream \<^verbatim>\<open>"bye"\<close>, delivered in two chunks, uploaded as
  \<^verbatim>\<open>a.txt\<close> into \<^verbatim>\<open>docs\<close>, on a new memory storage with an empty memory and on an empty
  bucket with no failures.
\<close>

theorem Upload_stores_stream_witness:
  "fst (MemoryStorage_Upload NewMemoryStorage bye_stream a_txt ''docs'' []) = Inr None \<and>
   io_ReadAll_in (snd (snd (MemoryStorage_Upload NewMemoryStorage bye_stream a_txt ''docs'' [])))
     (projr (fst (MemoryStorage_Read
       (fst (snd (MemoryStorage_Upload NewMemoryStorage bye_stream a_txt ''docs'' [])))
       (filepath_Join ''docs'' ''a.txt'')))) = bye \<and>
   fst (GCSStorage_Upload gcs0 bye_stream a_txt ''docs'' (empty_world [])) = Inr (Some 0) \<and>
   objects (snd (GCSStorage_Upload gcs0 bye_stream a_txt ''docs'' (empty_world [])))
     (''bucket'', ''docs/a.txt'') = Some bye \<and>
   temps (snd (GCSStorage_Upload gcs0 bye_stream a_txt ''docs'' (empty_world []))) ! 0
     = \<lparr>file_data = bye, file_offset = 0, file_closed = False\<rparr>"
proof -
  let ?m = "MemoryStorage_Upload NewMemoryStorage bye_stream a_txt ''docs'' []"
  let ?g = "GCSStorage_Upload gcs0 bye_stream a_txt ''docs'' (empty_world [])"
  have m: "?m = (Inr None, fst (snd ?m), snd (snd ?m))"
    by (simp add: bye_stream_def a_txt_def mem_defs lib_defs)
  have g: "?g = (Inr (Some 0), snd ?g)"
    by (simp add: gcs0_def empty_world_def bye_stream_def a_txt_def gcs_defs client_defs Let_def)
  have names: "Filename a_txt = ''a.txt''" "BucketName gcs0 = ''bucket''"
    "concat (chunks bye_stream) = bye"
    by (simp_all add: a_txt_def gcs0_def bye_stream_def bye_def)
  note spec = Upload_stores_stream
    [of NewMemoryStorage bye_stream a_txt "''docs''" "[]" gcs0 "empty_world []"]
  from spec m obtain r where
    "fst (MemoryStorage_Read (fst (snd ?m)) (filepath_Join ''docs'' (Filename a_txt))) = Inr r"
    "io_ReadAll_in (snd (snd ?m)) r = concat (chunks bye_stream)"
    by blast
  then have a: "io_ReadAll_in (snd (snd ?m)) (projr (fst (MemoryStorage_Read (fst (snd ?m))
      (filepath_Join ''docs'' ''a.txt'')))) = bye"
    by (simp add: names)
  from spec g have
    o: "objects (snd ?g) (BucketName gcs0, ''docs'' @ ''/'' @ Filename a_txt)
          = Some (concat (chunks bye_stream))"
    and "\<exists>f w2. Some (0::nat) = Some f \<and>
         objects w2 (BucketName gcs0, ''docs'' @ ''/'' @ Filename a_txt)
           = Some (concat (chunks bye_stream)) \<and>
         GCSStorage_Open gcs0 (''docs'' @ ''/'' @ Filename a_txt) w2 = (Inr (Some f), snd ?g) \<and>
         f < length (temps (snd ?g)) \<and>
         temps (snd ?g) ! f
           = \<lparr>file_data = concat (chunks bye_stream), file_offset = 0, file_closed = False\<rparr>"
    by blast+
  then have t: "temps (snd ?g) ! 0 = \<lparr>file_data = bye, file_offset = 0, file_closed = False\<rparr>"
    by (auto simp: names)
  have "fst ?m = Inr None" using m by (metis fst_conv)
  moreover have "fst ?g = Inr (Some 0)" using g by (metis fst_conv)
  ultimately show ?thesis using a o t by (simp add: names)
qed

end
